theory Spec2Isabelle
  imports Complex_Main "HOL-Library.Word" "HOL-Library.Sublist"
begin

section \<open>Constants of main.cpp\<close>

text \<open>Lines 10-11: the window settings.\<close>

definition SCR_WIDTH :: nat where
  "SCR_WIDTH = 800"

definition SCR_HEIGHT :: nat where
  "SCR_HEIGHT = 600"

text \<open>
  Lines 17-31: the two shader sources. Each C literal ends in an explicit NUL, and
  glShaderSource is called with a NULL length array, so the text handed to the driver is
  what precedes that NUL.
\<close>

definition vertexShaderSource :: string where
  "vertexShaderSource =
     ''#version 330 core\<newline>'' @
     ''layout (location = 0) in vec3 aPos;\<newline>'' @
     ''void main()\<newline>'' @
     ''{\<newline>'' @
     ''   gl_Position = vec4(aPos.x, aPos.y, aPos.z, 1.0);\<newline>'' @
     ''}''"

definition fragmentShaderSource :: string where
  "fragmentShaderSource =
     ''#version 330 core\<newline>'' @
     ''out vec4 FragColor;\<newline>'' @
     ''void main()\<newline>'' @
     ''{\<newline>'' @
     ''   FragColor = vec4(1.0f, 1.0f, 1.0f, 1.0f);\<newline>'' @
     ''}\<newline>''"

text \<open>The size of a float in bytes, as sizeof(float) gives it for the 32-bit GLfloat.\<close>

definition sizeof_float :: nat where
  "sizeof_float = 4"

text \<open>
  Lines 125-133: the vertex array. The literals -0.5f, 0.5f and 0.0f are dyadic, so
  the float32 values are exactly these rationals.
\<close>

definition vertices :: "rat list" where
  "vertices =
     [- 0.5, - 0.5, 0.0,
        0.5, - 0.5, 0.0,
        0.5,   0.5, 0.0,

        0.5,   0.5, 0.0,
      - 0.5,   0.5, 0.0,
      - 0.5, - 0.5, 0.0]"

definition sizeof_vertices :: nat where
  "sizeof_vertices = length vertices * sizeof_float"

text \<open>
  Line 168: the literal 0.15f is not dyadic; the float32 nearest to it is
  10066330 / 2^26, which is the value the call receives.
\<close>

definition clear_grey :: rat where
  "clear_grey = 10066330 / 2 ^ 26"

section \<open>The libraries the program calls\<close>

text \<open>
  GLFW, GLEW and OpenGL are outside the repository. A run of the program is modelled
  against an environment that fixes every answer the libraries give, and the program's
  effect is the list of the calls it makes, in order and with their arguments, the text it
  writes to the standard streams, and the little library state its control flow reads
  back (the close flag, the last reported state of the Escape key, the viewport).
\<close>

type_synonym window = nat    \<comment> \<open>a non-NULL GLFWwindow pointer\<close>
type_synonym handle = "32 word"    \<comment> \<open>unsigned int names of GL objects\<close>

datatype glfw_hint =
  GLFW_CONTEXT_VERSION_MAJOR | GLFW_CONTEXT_VERSION_MINOR
  | GLFW_OPENGL_PROFILE | GLFW_OPENGL_FORWARD_COMPAT

datatype hint_value = Hint_int int | GLFW_OPENGL_CORE_PROFILE | GL_TRUE

datatype glenum =
  GL_VERTEX_SHADER | GL_FRAGMENT_SHADER | GL_COMPILE_STATUS | GL_LINK_STATUS
  | GL_ARRAY_BUFFER | GL_STATIC_DRAW | GL_FLOAT | GL_TRIANGLES | GL_COLOR_BUFFER_BIT

datatype key = GLFW_KEY_ESCAPE

datatype key_action = GLFW_RELEASE | GLFW_PRESS

datatype callback = Framebuffer_size_callback

datatype call =
  GlfwInit
  | GlfwWindowHint glfw_hint hint_value
  | GlfwCreateWindow nat nat string
  | GlfwTerminate
  | GlfwMakeContextCurrent window
  | GlfwSetFramebufferSizeCallback window callback
  | GlewInit
  | GlCreateShader glenum
  | GlShaderSource handle nat string
  | GlCompileShader handle
  | GlGetShaderiv handle glenum
  | GlGetShaderInfoLog handle nat
  | GlCreateProgram
  | GlAttachShader handle handle
  | GlLinkProgram handle
  | GlGetProgramiv handle glenum
  | GlGetProgramInfoLog handle nat
  | GlDeleteShader handle
  | GlGenVertexArrays nat
  | GlGenBuffers nat
  | GlBindVertexArray handle
  | GlBindBuffer glenum handle
  | GlBufferData glenum nat "rat list" glenum
  | GlVertexAttribPointer nat nat glenum bool nat nat
  | GlEnableVertexAttribArray nat
  | GlfwWindowShouldClose window
  | GlfwGetKey window key
  | GlfwSetWindowShouldClose window bool
  | GlClearColor rat rat rat rat
  | GlClear glenum
  | GlUseProgram handle
  | GlDrawArrays glenum int nat
  | GlfwSwapBuffers window
  | GlfwPollEvents
  | GlViewport int int int int
  | GlDeleteVertexArrays nat handle
  | GlDeleteBuffers nat handle
  | GlDeleteProgram handle

text \<open>
  What the window system can deliver while glfwPollEvents runs, as far as this program
  can observe it: a change of the Escape key, a request to close the window (the title
  bar button), a new framebuffer size.
\<close>

datatype event =
  Key_event key key_action
  | Close_request
  | Framebuffer_resized int int

record env =
  apple :: bool    \<comment> \<open>compiled with \<open>__APPLE__\<close> defined\<close>
  glfwInit_ok :: bool
  created_window :: "window option"    \<comment> \<open>None is the NULL pointer\<close>
  framebuffer_size :: "int \<times> int"    \<comment> \<open>size of the new window's framebuffer\<close>
  glewInit_ok :: bool
  vertex_id :: handle
  vertex_compiled :: bool
  vertex_log :: string
  fragment_id :: handle
  fragment_compiled :: bool
  fragment_log :: string
  program_id :: handle
  program_linked :: bool
  program_log :: string
  vao_id :: handle
  vbo_id :: handle
  events :: "event list list"    \<comment> \<open>one batch for each glfwPollEvents, in order\<close>

record world =
  calls :: "call list"
  cout :: string    \<comment> \<open>standard output\<close>
  cerr :: string    \<comment> \<open>standard error\<close>
  glewExperimental :: bool
  should_close :: bool
  escape_key :: key_action
  fb_callback :: "(window \<times> callback) option"
  viewport :: "int \<times> int \<times> int \<times> int"
  pending :: "event list list"

definition init_world :: "env \<Rightarrow> world" where
  "init_world e =
     \<lparr>calls = [], cout = [], cerr = [], glewExperimental = False, should_close = False,
      escape_key = GLFW_RELEASE, fb_callback = None, viewport = (0, 0, 0, 0),
      pending = events e\<rparr>"

definition api :: "call \<Rightarrow> world \<Rightarrow> world" where
  "api c s = s\<lparr>calls := calls s @ [c]\<rparr>"

text \<open>\<open>std::cout << a << ... << std::endl\<close>: the text, then a newline.\<close>

definition cout_endl :: "string \<Rightarrow> world \<Rightarrow> world" where
  "cout_endl text s = s\<lparr>cout := cout s @ text @ ''\<newline>''\<rparr>"

text \<open>
  glfwCreateWindow returns NULL when the library is not initialised (the error
  GLFW_NOT_INITIALIZED), and otherwise what the window system grants.
\<close>

definition glfwCreateWindow :: "env \<Rightarrow> nat \<Rightarrow> nat \<Rightarrow> string \<Rightarrow> world \<Rightarrow> window option \<times> world" where
  "glfwCreateWindow e width height title s =
     (if glfwInit_ok e then created_window e else None,
      api (GlfwCreateWindow width height title) s)"

text \<open>
  Making a context current for the first time sets the viewport to the size of the
  window's framebuffer.
\<close>

definition glfwMakeContextCurrent :: "env \<Rightarrow> window \<Rightarrow> world \<Rightarrow> world" where
  "glfwMakeContextCurrent e window s =
     api (GlfwMakeContextCurrent window)
       (s\<lparr>viewport := (0, 0, fst (framebuffer_size e), snd (framebuffer_size e))\<rparr>)"

definition glfwSetFramebufferSizeCallback :: "window \<Rightarrow> callback \<Rightarrow> world \<Rightarrow> world" where
  "glfwSetFramebufferSizeCallback window cb s =
     api (GlfwSetFramebufferSizeCallback window cb) (s\<lparr>fb_callback := Some (window, cb)\<rparr>)"

definition glfwWindowShouldClose :: "window \<Rightarrow> world \<Rightarrow> bool \<times> world" where
  "glfwWindowShouldClose window s = (should_close s, api (GlfwWindowShouldClose window) s)"

definition glfwSetWindowShouldClose :: "window \<Rightarrow> bool \<Rightarrow> world \<Rightarrow> world" where
  "glfwSetWindowShouldClose window v s =
     api (GlfwSetWindowShouldClose window v) (s\<lparr>should_close := v\<rparr>)"

text \<open>glfwGetKey returns the last state reported for the key.\<close>

definition glfwGetKey :: "window \<Rightarrow> key \<Rightarrow> world \<Rightarrow> key_action \<times> world" where
  "glfwGetKey window k s = (escape_key s, api (GlfwGetKey window k) s)"

definition glViewport :: "int \<Rightarrow> int \<Rightarrow> int \<Rightarrow> int \<Rightarrow> world \<Rightarrow> world" where
  "glViewport x y width height s =
     api (GlViewport x y width height) (s\<lparr>viewport := (x, y, width, height)\<rparr>)"

text \<open>
  glGetShaderInfoLog and glGetProgramInfoLog copy the log into a buffer of bufSize
  bytes, the terminating NUL included, so at most bufSize - 1 characters of it.
\<close>

definition info_log :: "nat \<Rightarrow> string \<Rightarrow> string" where
  "info_log bufSize msg = take (bufSize - 1) msg"

section \<open>The functions of main.cpp\<close>

text \<open>Lines 34-37.\<close>

definition framebuffer_size_callback :: "window \<Rightarrow> int \<Rightarrow> int \<Rightarrow> world \<Rightarrow> world" where
  "framebuffer_size_callback window width height s = glViewport 0 0 width height s"

text \<open>Lines 40-44.\<close>

definition processInput :: "window \<Rightarrow> world \<Rightarrow> world" where
  "processInput window s =
     (let (k, s) = glfwGetKey window GLFW_KEY_ESCAPE s
      in if k = GLFW_PRESS then glfwSetWindowShouldClose window True s else s)"

text \<open>
  glfwPollEvents takes the next batch of events and delivers each in turn: a key
  event changes the key state that glfwGetKey reports, a close request sets the close
  flag, a new framebuffer size runs the callback registered for it.
\<close>

fun run_callback :: "callback \<Rightarrow> window \<Rightarrow> int \<Rightarrow> int \<Rightarrow> world \<Rightarrow> world" where
  "run_callback Framebuffer_size_callback window width height s =
     framebuffer_size_callback window width height s"

fun deliver :: "event \<Rightarrow> world \<Rightarrow> world" where
  "deliver (Key_event GLFW_KEY_ESCAPE a) s = s\<lparr>escape_key := a\<rparr>"
| "deliver Close_request s = s\<lparr>should_close := True\<rparr>"
| "deliver (Framebuffer_resized width height) s =
     (case fb_callback s of
        None \<Rightarrow> s
      | Some (window, cb) \<Rightarrow> run_callback cb window width height s)"

definition glfwPollEvents :: "world \<Rightarrow> world" where
  "glfwPollEvents s =
     (case pending s of
        [] \<Rightarrow> api GlfwPollEvents s
      | batch # rest \<Rightarrow> fold deliver batch (api GlfwPollEvents (s\<lparr>pending := rest\<rparr>)))"

text \<open>
  Lines 49-75 of main: initialise GLFW, create the window and its context, load the GL
  entry points. Inl is an early return with its exit code.
\<close>

definition create_context :: "env \<Rightarrow> world \<Rightarrow> (int \<times> world) + (window \<times> world)" where
  "create_context e s =
     (let s = api GlfwInit s;
          s = api (GlfwWindowHint GLFW_CONTEXT_VERSION_MAJOR (Hint_int 3)) s;
          s = api (GlfwWindowHint GLFW_CONTEXT_VERSION_MINOR (Hint_int 3)) s;
          s = api (GlfwWindowHint GLFW_OPENGL_PROFILE GLFW_OPENGL_CORE_PROFILE) s;
          s = (if apple e then api (GlfwWindowHint GLFW_OPENGL_FORWARD_COMPAT GL_TRUE) s else s);
          (window, s) =
            glfwCreateWindow e SCR_WIDTH SCR_HEIGHT ''LearnOpenGL - First Triangle'' s
      in case window of
           None \<Rightarrow>
             (let s = cout_endl ''Failed to create GLFW window'' s;
                  s = api GlfwTerminate s
              in Inl (- 1, s))
         | Some window \<Rightarrow>
             (let s = glfwMakeContextCurrent e window s;
                  s = glfwSetFramebufferSizeCallback window Framebuffer_size_callback s;
                  s = s\<lparr>glewExperimental := True\<rparr>;
                  s = api GlewInit s
              in if \<not> glewInit_ok e
                 then (let s = cout_endl ''Failed to initialize GLEW'' s in Inl (- 1, s))
                 else Inr (window, s)))"

text \<open>Lines 80-122 of main: compile the two stages, link them, delete the stages.\<close>

definition build_shader_program :: "env \<Rightarrow> world \<Rightarrow> handle \<times> world" where
  "build_shader_program e s =
     (let s = api (GlCreateShader GL_VERTEX_SHADER) s;
          vertexShader = vertex_id e;
          s = api (GlShaderSource vertexShader 1 vertexShaderSource) s;
          s = api (GlCompileShader vertexShader) s;
          s = api (GlGetShaderiv vertexShader GL_COMPILE_STATUS) s;
          success = vertex_compiled e;
          s = (if \<not> success
               then (let s = api (GlGetShaderInfoLog vertexShader 512) s;
                         infoLog = info_log 512 (vertex_log e)
                     in cout_endl
                          (''ERROR::SHADER::VERTEX::COMPILATION_FAILED\<newline>'' @ infoLog) s)
               else s);
          s = api (GlCreateShader GL_FRAGMENT_SHADER) s;
          fragmentShader = fragment_id e;
          s = api (GlShaderSource fragmentShader 1 fragmentShaderSource) s;
          s = api (GlCompileShader fragmentShader) s;
          s = api (GlGetShaderiv fragmentShader GL_COMPILE_STATUS) s;
          success = fragment_compiled e;
          s = (if \<not> success
               then (let s = api (GlGetShaderInfoLog fragmentShader 512) s;
                         infoLog = info_log 512 (fragment_log e)
                     in cout_endl
                          (''ERROR::SHADER::FRAGMENT::COMPILATION_FAILED\<newline>'' @ infoLog) s)
               else s);
          s = api GlCreateProgram s;
          shaderProgram = program_id e;
          s = api (GlAttachShader shaderProgram vertexShader) s;
          s = api (GlAttachShader shaderProgram fragmentShader) s;
          s = api (GlLinkProgram shaderProgram) s;
          s = api (GlGetProgramiv shaderProgram GL_LINK_STATUS) s;
          success = program_linked e;
          s = (if \<not> success
               then (let s = api (GlGetProgramInfoLog shaderProgram 512) s;
                         infoLog = info_log 512 (program_log e)
                     in cout_endl
                          (''ERROR::SHADER::PROGRAM::LINKING_FAILED\<newline>'' @ infoLog) s)
               else s);
          s = api (GlDeleteShader vertexShader) s;
          s = api (GlDeleteShader fragmentShader) s
      in (shaderProgram, s))"

text \<open>Lines 136-159 of main: the buffer and the vertex array object.\<close>

definition setup_geometry :: "env \<Rightarrow> world \<Rightarrow> (handle \<times> handle) \<times> world" where
  "setup_geometry e s =
     (let s = api (GlGenVertexArrays 1) s;
          VAO = vao_id e;
          s = api (GlGenBuffers 1) s;
          VBO = vbo_id e;
          s = api (GlBindVertexArray VAO) s;
          s = api (GlBindBuffer GL_ARRAY_BUFFER VBO) s;
          s = api (GlBufferData GL_ARRAY_BUFFER sizeof_vertices vertices GL_STATIC_DRAW) s;
          s = api (GlVertexAttribPointer 0 3 GL_FLOAT False (3 * sizeof_float) 0) s;
          s = api (GlEnableVertexAttribArray 0) s;
          s = api (GlBindBuffer GL_ARRAY_BUFFER 0) s;
          s = api (GlBindVertexArray 0) s
      in ((VBO, VAO), s))"

text \<open>Lines 164-178 of main: the body of the render loop.\<close>

definition iteration :: "window \<Rightarrow> handle \<Rightarrow> handle \<Rightarrow> world \<Rightarrow> world" where
  "iteration window shaderProgram VAO s =
     (let s = processInput window s;
          s = api (GlClearColor clear_grey clear_grey clear_grey 1.0) s;
          s = api (GlClear GL_COLOR_BUFFER_BIT) s;
          s = api (GlUseProgram shaderProgram) s;
          s = api (GlBindVertexArray VAO) s;
          s = api (GlDrawArrays GL_TRIANGLES 0 6) s;
          s = api (GlfwSwapBuffers window) s;
          s = glfwPollEvents s
      in s)"

text \<open>
  Lines 162-179 of main: the render loop. The loop may run for ever, so it is given
  fuel, one unit for each test of its condition; None means the fuel ran out before the
  loop ended.
\<close>

fun render_loop :: "nat \<Rightarrow> window \<Rightarrow> handle \<Rightarrow> handle \<Rightarrow> world \<Rightarrow> world option" where
  "render_loop 0 window shaderProgram VAO s = None"
| "render_loop (Suc fuel) window shaderProgram VAO s =
     (let (closing, s) = glfwWindowShouldClose window s
      in if \<not> closing
         then render_loop fuel window shaderProgram VAO (iteration window shaderProgram VAO s)
         else Some s)"

text \<open>Lines 182-186 of main.\<close>

definition cleanup :: "handle \<Rightarrow> handle \<Rightarrow> handle \<Rightarrow> world \<Rightarrow> world" where
  "cleanup VAO VBO shaderProgram s =
     (let s = api (GlDeleteVertexArrays 1 VAO) s;
          s = api (GlDeleteBuffers 1 VBO) s;
          s = api (GlDeleteProgram shaderProgram) s;
          s = api GlfwTerminate s
      in s)"

text \<open>
  Lines 49-159 of main: everything before the render loop. Inl is an early return, Inr
  the local variables and the state with which the loop is entered.
\<close>

definition startup :: "env \<Rightarrow> (int \<times> world) + (window \<times> handle \<times> handle \<times> handle \<times> world)" where
  "startup e =
     (case create_context e (init_world e) of
        Inl r \<Rightarrow> Inl r
      | Inr (window, s) \<Rightarrow>
          (let (shaderProgram, s) = build_shader_program e s;
               ((VBO, VAO), s) = setup_geometry e s
           in Inr (window, shaderProgram, VAO, VBO, s)))"

text \<open>main takes no argument vector: \<open>int main()\<close>. It returns the exit code.\<close>

definition main :: "env \<Rightarrow> nat \<Rightarrow> (int \<times> world) option" where
  "main e fuel =
     (case startup e of
        Inl r \<Rightarrow> Some r
      | Inr (window, shaderProgram, VAO, VBO, s) \<Rightarrow>
          (case render_loop fuel window shaderProgram VAO s of
             None \<Rightarrow> None
           | Some s \<Rightarrow> Some (0, cleanup VAO VBO shaderProgram s)))"


section \<open>What is observed of a run\<close>

text \<open>
  The calls that glfwPollEvents makes on the program's behalf while it delivers a batch:
  one glViewport for each new framebuffer size, when a callback is registered.
\<close>

fun resize_calls :: "(window \<times> callback) option \<Rightarrow> event list \<Rightarrow> call list" where
  "resize_calls cb [] = []"
| "resize_calls cb (Framebuffer_resized width height # evs) =
     (case cb of None \<Rightarrow> [] | Some _ \<Rightarrow> [GlViewport 0 0 width height]) @ resize_calls cb evs"
| "resize_calls cb (_ # evs) = resize_calls cb evs"

text \<open>The state with which a run enters the render loop, if it gets there.\<close>

definition loop_entry :: "env \<Rightarrow> world option" where
  "loop_entry e =
     (case startup e of
        Inl r \<Rightarrow> None
      | Inr (window, shaderProgram, VAO, VBO, s) \<Rightarrow> Some s)"

text \<open>The calls that one iteration of the loop adds when it starts in state s.\<close>

definition calls_of_iteration :: "window \<Rightarrow> handle \<Rightarrow> handle \<Rightarrow> world \<Rightarrow> call list" where
  "calls_of_iteration window shaderProgram VAO s =
     drop (length (calls s)) (calls (iteration window shaderProgram VAO s))"

text \<open>The batch that the next glfwPollEvents will deliver.\<close>

definition next_batch :: "world \<Rightarrow> event list" where
  "next_batch s = (case pending s of [] \<Rightarrow> [] | batch # rest \<Rightarrow> batch)"

text \<open>The framebuffer size that a batch of events leaves behind, if it changes it.\<close>

fun last_resize :: "event list \<Rightarrow> (int \<times> int) option" where
  "last_resize [] = None"
| "last_resize (Framebuffer_resized width height # evs) =
     (case last_resize evs of None \<Rightarrow> Some (width, height) | Some r \<Rightarrow> Some r)"
| "last_resize (_ # evs) = last_resize evs"

text \<open>glfwCreateWindow returns a window.\<close>

definition window_created :: "env \<Rightarrow> bool" where
  "window_created e = (glfwInit_ok e \<and> created_window e \<noteq> None)"

text \<open>
  The calls expected of three parts of main, as literal lists: up to the creation of the
  window, the setup of the geometry (sizes in bytes written out), and the final cleanup.
\<close>

definition context_calls :: "env \<Rightarrow> call list" where
  "context_calls e =
     [GlfwInit,
      GlfwWindowHint GLFW_CONTEXT_VERSION_MAJOR (Hint_int 3),
      GlfwWindowHint GLFW_CONTEXT_VERSION_MINOR (Hint_int 3),
      GlfwWindowHint GLFW_OPENGL_PROFILE GLFW_OPENGL_CORE_PROFILE] @
     (if apple e then [GlfwWindowHint GLFW_OPENGL_FORWARD_COMPAT GL_TRUE] else []) @
     [GlfwCreateWindow 800 600 ''LearnOpenGL - First Triangle'']"

definition geometry_calls :: "env \<Rightarrow> call list" where
  "geometry_calls e =
     [GlGenVertexArrays 1, GlGenBuffers 1,
      GlBindVertexArray (vao_id e),
      GlBindBuffer GL_ARRAY_BUFFER (vbo_id e),
      GlBufferData GL_ARRAY_BUFFER 72 vertices GL_STATIC_DRAW,
      GlVertexAttribPointer 0 3 GL_FLOAT False 12 0,
      GlEnableVertexAttribArray 0,
      GlBindBuffer GL_ARRAY_BUFFER 0, GlBindVertexArray 0]"

definition cleanup_calls :: "env \<Rightarrow> call list" where
  "cleanup_calls e =
     [GlDeleteVertexArrays 1 (vao_id e), GlDeleteBuffers 1 (vbo_id e),
      GlDeleteProgram (program_id e), GlfwTerminate]"

text \<open>
  The text that the shader build is expected to print: for each stage that fails to
  compile, and for a failed link, the header line, the first 511 characters of the
  driver's log, and a newline.
\<close>

definition shader_diagnostics :: "env \<Rightarrow> string" where
  "shader_diagnostics e =
     (if vertex_compiled e then []
      else ''ERROR::SHADER::VERTEX::COMPILATION_FAILED\<newline>'' @ take 511 (vertex_log e) @ ''\<newline>'') @
     (if fragment_compiled e then []
      else ''ERROR::SHADER::FRAGMENT::COMPILATION_FAILED\<newline>'' @ take 511 (fragment_log e) @ ''\<newline>'') @
     (if program_linked e then []
      else ''ERROR::SHADER::PROGRAM::LINKING_FAILED\<newline>'' @ take 511 (program_log e) @ ''\<newline>'')"

text \<open>
  The retrievals of an info log that the shader build is expected to make: one for each
  stage that fails to compile and one for a failed link, into a buffer of 512 bytes.
\<close>

definition diagnostic_calls :: "env \<Rightarrow> call list" where
  "diagnostic_calls e =
     (if vertex_compiled e then [] else [GlGetShaderInfoLog (vertex_id e) 512]) @
     (if fragment_compiled e then [] else [GlGetShaderInfoLog (fragment_id e) 512]) @
     (if program_linked e then [] else [GlGetProgramInfoLog (program_id e) 512])"

text \<open>
  A run with its diagnostic report taken away: the calls that fetch an info log and
  the text on standard output. \<open>all_compiled\<close> is the environment in which, all else
  equal, both stages compile and the program links.
\<close>

fun is_diagnostic :: "call \<Rightarrow> bool" where
  "is_diagnostic (GlGetShaderInfoLog shader bufSize) = True"
| "is_diagnostic (GlGetProgramInfoLog program bufSize) = True"
| "is_diagnostic _ = False"

definition undiagnosed :: "world \<Rightarrow> world" where
  "undiagnosed s = s\<lparr>calls := filter (\<lambda>c. \<not> is_diagnostic c) (calls s), cout := []\<rparr>"

definition all_compiled :: "env \<Rightarrow> env" where
  "all_compiled e = e\<lparr>vertex_compiled := True, fragment_compiled := True, program_linked := True\<rparr>"

fun is_draw :: "call \<Rightarrow> bool" where
  "is_draw (GlDrawArrays mode start n) = True"
| "is_draw _ = False"

subsection \<open>The order of the phases as the specification words it\<close>

text \<open>
  Section 4.5 of the specification numbers the phases of an iteration: 1 the input
  phase (poll events; if Escape is down, set the close flag), 2 the clear phase, 3 the
  draw phase, 4 the present phase. \<open>spec_phase\<close> gives each call of the loop body the
  number of the phase the specification puts it in, and \<open>spec_phase_order\<close> holds of
  a list of calls in which no call of a later phase comes before a call of an earlier one.
\<close>

fun spec_phase :: "call \<Rightarrow> nat" where
  "spec_phase GlfwPollEvents = 1"
| "spec_phase (GlfwGetKey window k) = 1"
| "spec_phase (GlfwSetWindowShouldClose window v) = 1"
| "spec_phase (GlViewport x y width height) = 1"
| "spec_phase (GlClearColor r g b a) = 2"
| "spec_phase (GlClear bits) = 2"
| "spec_phase (GlUseProgram program) = 3"
| "spec_phase (GlBindVertexArray array) = 3"
| "spec_phase (GlDrawArrays mode start n) = 3"
| "spec_phase (GlfwSwapBuffers window) = 4"
| "spec_phase _ = 0"

definition spec_phase_order :: "call list \<Rightarrow> bool" where
  "spec_phase_order cs = sorted (map spec_phase cs)"

subsection \<open>Vertex fetch and the triangles drawn\<close>

text \<open>
  How the pipeline reads the buffer under the layout that glVertexAttribPointer declares:
  vertex i has its components at byte \<open>start + i * stride\<close>. With GL_TRIANGLES,
  glDrawArrays makes one triangle of each three consecutive vertices. A point lies in a
  closed triangle when it is on the same side of the three edges.
\<close>

type_synonym point = "rat \<times> rat"

definition attribute_at :: "nat \<Rightarrow> nat \<Rightarrow> nat \<Rightarrow> rat list \<Rightarrow> nat \<Rightarrow> rat list" where
  "attribute_at components stride start buffer i =
     take components (drop ((start + i * stride) div sizeof_float) buffer)"

definition vertex_position :: "nat \<Rightarrow> rat list" where
  "vertex_position i = attribute_at 3 (3 * sizeof_float) 0 vertices i"

definition drawn_triangles :: "nat \<Rightarrow> nat \<Rightarrow> (rat list \<times> rat list \<times> rat list) list" where
  "drawn_triangles start n =
     map (\<lambda>k. (vertex_position (start + 3 * k),
               vertex_position (start + 3 * k + 1),
               vertex_position (start + 3 * k + 2)))
       [0 ..< n div 3]"

definition xy :: "rat list \<Rightarrow> point" where
  "xy v = (v ! 0, v ! 1)"

definition edge :: "point \<Rightarrow> point \<Rightarrow> point \<Rightarrow> rat" where
  "edge a b p = (fst b - fst a) * (snd p - snd a) - (snd b - snd a) * (fst p - fst a)"

definition in_triangle :: "point \<Rightarrow> point \<Rightarrow> point \<Rightarrow> point \<Rightarrow> bool" where
  "in_triangle a b c p =
     ((0 \<le> edge a b p \<and> 0 \<le> edge b c p \<and> 0 \<le> edge c a p) \<or>
      (edge a b p \<le> 0 \<and> edge b c p \<le> 0 \<and> edge c a p \<le> 0))"

fun covers :: "rat list \<times> rat list \<times> rat list \<Rightarrow> point \<Rightarrow> bool" where
  "covers (a, b, c) p = in_triangle (xy a) (xy b) (xy c) p"

text \<open>The closed axis-aligned square of the given side centred at the origin.\<close>

definition in_square :: "rat \<Rightarrow> point \<Rightarrow> bool" where
  "in_square side p = (\<bar>fst p\<bar> \<le> side / 2 \<and> \<bar>snd p\<bar> \<le> side / 2)"

subsection \<open>Sample environments\<close>

text \<open>
  A machine on which everything succeeds; the user resizes the window to 1024 x 768
  during the first frame and presses Escape during the second.
\<close>

definition env_ok :: env where
  "env_ok =
     \<lparr>apple = False, glfwInit_ok = True, created_window = Some 1,
      framebuffer_size = (800, 600), glewInit_ok = True,
      vertex_id = 1, vertex_compiled = True, vertex_log = [],
      fragment_id = 2, fragment_compiled = True, fragment_log = [],
      program_id = 3, program_linked = True, program_log = [],
      vao_id = 1, vbo_id = 1,
      events = [[Framebuffer_resized 1024 768], [Key_event GLFW_KEY_ESCAPE GLFW_PRESS]]\<rparr>"

text \<open>The same machine with other inputs: the window is closed during the second frame.\<close>

definition env_closed :: env where
  "env_closed = env_ok\<lparr>events := [[], [Close_request]]\<rparr>"

text \<open>Escape is pressed during the first frame.\<close>

definition env_escape :: env where
  "env_escape = env_ok\<lparr>events := [[Key_event GLFW_KEY_ESCAPE GLFW_PRESS]]\<rparr>"

text \<open>The fragment shader does not compile; the window is closed during the first frame.\<close>

definition env_broken_fragment :: env where
  "env_broken_fragment =
     env_ok\<lparr>fragment_compiled := False, fragment_log := ''0:5(1): error: syntax error'',
            events := [[Close_request]]\<rparr>"

text \<open>glewInit does not return GLEW_OK.\<close>

definition env_loader_fails :: env where
  "env_loader_fails = env_ok\<lparr>glewInit_ok := False\<rparr>"

text \<open>glfwInit fails.\<close>

definition env_no_glfw :: env where
  "env_no_glfw = env_ok\<lparr>glfwInit_ok := False\<rparr>"

section \<open>Field by field: what each operation changes\<close>

lemma api_fields [simp]:
  "calls (api c s) = calls s @ [c]"
  "cout (api c s) = cout s"
  "cerr (api c s) = cerr s"
  "glewExperimental (api c s) = glewExperimental s"
  "should_close (api c s) = should_close s"
  "escape_key (api c s) = escape_key s"
  "fb_callback (api c s) = fb_callback s"
  "viewport (api c s) = viewport s"
  "pending (api c s) = pending s"
  by (simp_all add: api_def)

lemma cout_endl_fields [simp]:
  "calls (cout_endl t s) = calls s"
  "cout (cout_endl t s) = cout s @ t @ ''\<newline>''"
  "cerr (cout_endl t s) = cerr s"
  "glewExperimental (cout_endl t s) = glewExperimental s"
  "should_close (cout_endl t s) = should_close s"
  "escape_key (cout_endl t s) = escape_key s"
  "fb_callback (cout_endl t s) = fb_callback s"
  "viewport (cout_endl t s) = viewport s"
  "pending (cout_endl t s) = pending s"
  by (simp_all add: cout_endl_def)

lemma run_callback_eq: "run_callback cb window width height s = glViewport 0 0 width height s"
  by (cases cb) (simp add: framebuffer_size_callback_def)

lemma glViewport_fields [simp]:
  "calls (glViewport x y w h s) = calls s @ [GlViewport x y w h]"
  "cout (glViewport x y w h s) = cout s"
  "cerr (glViewport x y w h s) = cerr s"
  "glewExperimental (glViewport x y w h s) = glewExperimental s"
  "should_close (glViewport x y w h s) = should_close s"
  "escape_key (glViewport x y w h s) = escape_key s"
  "fb_callback (glViewport x y w h s) = fb_callback s"
  "viewport (glViewport x y w h s) = (x, y, w, h)"
  "pending (glViewport x y w h s) = pending s"
  by (simp_all add: glViewport_def)

lemma deliver_cases:
  "deliver ev s =
     (case ev of
        Key_event k a \<Rightarrow> s\<lparr>escape_key := a\<rparr>
      | Close_request \<Rightarrow> s\<lparr>should_close := True\<rparr>
      | Framebuffer_resized width height \<Rightarrow>
          (if fb_callback s = None then s else glViewport 0 0 width height s))"
proof (cases ev)
  case (Key_event k a)
  then show ?thesis by (cases k) simp
next
  case Close_request
  then show ?thesis by simp
next
  case (Framebuffer_resized width height)
  then show ?thesis by (auto simp: run_callback_eq split: option.split)
qed

lemma deliver_fields [simp]:
  "cout (deliver ev s) = cout s"
  "cerr (deliver ev s) = cerr s"
  "fb_callback (deliver ev s) = fb_callback s"
  "pending (deliver ev s) = pending s"
  "glewExperimental (deliver ev s) = glewExperimental s"
  by (simp_all add: deliver_cases split: event.split)

lemma deliver_calls:
  "calls (deliver ev s) = calls s @ resize_calls (fb_callback s) [ev]"
  by (cases ev) (auto simp: deliver_cases split: option.split)

lemma deliver_keeps_close: "should_close s \<Longrightarrow> should_close (deliver ev s)"
  by (simp add: deliver_cases split: event.split)

lemma fold_deliver_fields [simp]:
  "cout (fold deliver evs s) = cout s"
  "cerr (fold deliver evs s) = cerr s"
  "fb_callback (fold deliver evs s) = fb_callback s"
  "pending (fold deliver evs s) = pending s"
  "glewExperimental (fold deliver evs s) = glewExperimental s"
  by (induction evs arbitrary: s; simp)+

lemma resize_calls_Cons: "resize_calls cb (ev # evs) = resize_calls cb [ev] @ resize_calls cb evs"
  by (cases ev) simp_all

lemma fold_deliver_calls:
  "calls (fold deliver evs s) = calls s @ resize_calls (fb_callback s) evs"
proof (induction evs arbitrary: s)
  case Nil
  show ?case by simp
next
  case (Cons ev evs)
  show ?case
    using resize_calls_Cons[of "fb_callback s" ev evs]
    by (simp add: Cons.IH deliver_calls)
qed

lemma fold_deliver_keeps_close: "should_close s \<Longrightarrow> should_close (fold deliver evs s)"
  by (induction evs arbitrary: s) (simp_all add: deliver_keeps_close)

lemma fold_deliver_close_request:
  "Close_request \<in> set evs \<Longrightarrow> should_close (fold deliver evs s)"
proof (induction evs arbitrary: s)
  case Nil
  then show ?case by simp
next
  case (Cons ev evs)
  show ?case
  proof (cases "ev = Close_request")
    case True
    then show ?thesis by (simp add: fold_deliver_keeps_close)
  next
    case False
    with Cons show ?thesis by simp
  qed
qed

lemma glfwPollEvents_fields [simp]:
  "calls (glfwPollEvents s) = calls s @ GlfwPollEvents # resize_calls (fb_callback s) (next_batch s)"
  "cout (glfwPollEvents s) = cout s"
  "cerr (glfwPollEvents s) = cerr s"
  "fb_callback (glfwPollEvents s) = fb_callback s"
  "pending (glfwPollEvents s) = tl (pending s)"
  "glewExperimental (glfwPollEvents s) = glewExperimental s"
  by (simp_all add: glfwPollEvents_def next_batch_def fold_deliver_calls split: list.split)

lemma glfwPollEvents_keeps_close: "should_close s \<Longrightarrow> should_close (glfwPollEvents s)"
  by (simp add: glfwPollEvents_def fold_deliver_keeps_close split: list.split)

lemma glfwPollEvents_close_request:
  "Close_request \<in> set (next_batch s) \<Longrightarrow> should_close (glfwPollEvents s)"
  by (cases "pending s") (simp_all add: glfwPollEvents_def next_batch_def fold_deliver_close_request)

lemma processInput_fields [simp]:
  "calls (processInput w s) =
     calls s @ GlfwGetKey w GLFW_KEY_ESCAPE #
       (if escape_key s = GLFW_PRESS then [GlfwSetWindowShouldClose w True] else [])"
  "cout (processInput w s) = cout s"
  "cerr (processInput w s) = cerr s"
  "fb_callback (processInput w s) = fb_callback s"
  "pending (processInput w s) = pending s"
  "glewExperimental (processInput w s) = glewExperimental s"
  "escape_key (processInput w s) = escape_key s"
  "viewport (processInput w s) = viewport s"
  "should_close (processInput w s) = (should_close s \<or> escape_key s = GLFW_PRESS)"
  by (simp_all add: processInput_def glfwGetKey_def glfwSetWindowShouldClose_def)

lemma iteration_fields [simp]:
  "cout (iteration w p v s) = cout s"
  "cerr (iteration w p v s) = cerr s"
  "fb_callback (iteration w p v s) = fb_callback s"
  "pending (iteration w p v s) = tl (pending s)"
  "glewExperimental (iteration w p v s) = glewExperimental s"
  by (simp_all add: iteration_def)

lemma iteration_calls:
  "calls (iteration w p v s) =
     calls s @
     GlfwGetKey w GLFW_KEY_ESCAPE #
     (if escape_key s = GLFW_PRESS then [GlfwSetWindowShouldClose w True] else []) @
     [GlClearColor clear_grey clear_grey clear_grey 1, GlClear GL_COLOR_BUFFER_BIT] @
     [GlUseProgram p, GlBindVertexArray v, GlDrawArrays GL_TRIANGLES 0 6] @
     [GlfwSwapBuffers w] @
     GlfwPollEvents # resize_calls (fb_callback s) (next_batch s)"
  by (simp add: iteration_def next_batch_def)

lemma iteration_keeps_close:
  "should_close s \<or> escape_key s = GLFW_PRESS \<Longrightarrow> should_close (iteration w p v s)"
  by (simp add: iteration_def glfwPollEvents_keeps_close)


section \<open>The render loop\<close>

lemma render_loop_closing:
  "should_close s \<Longrightarrow>
   render_loop (Suc n) w p v s = Some (api (GlfwWindowShouldClose w) s)"
  by (simp add: glfwWindowShouldClose_def)

lemma render_loop_running:
  "\<not> should_close s \<Longrightarrow>
   render_loop (Suc n) w p v s =
     render_loop n w p v (iteration w p v (api (GlfwWindowShouldClose w) s))"
  by (simp add: glfwWindowShouldClose_def)

lemma render_loop_Some:
  "render_loop n w p v s = Some s' \<Longrightarrow>
   cout s' = cout s \<and> cerr s' = cerr s \<and> fb_callback s' = fb_callback s \<and>
   should_close s' \<and> prefix (calls s) (calls s') \<and> last (calls s') = GlfwWindowShouldClose w"
proof (induction n arbitrary: s)
  case 0
  then show ?case by simp
next
  case (Suc n)
  show ?case
  proof (cases "should_close s")
    case True
    with Suc.prems show ?thesis
      by (auto simp: render_loop_closing simp del: render_loop.simps)
  next
    case False
    let ?t = "iteration w p v (api (GlfwWindowShouldClose w) s)"
    from False Suc.prems have "render_loop n w p v ?t = Some s'"
      by (simp add: render_loop_running del: render_loop.simps)
    from Suc.IH[OF this]
    have *: "cout s' = cout ?t" "cerr s' = cerr ?t" "fb_callback s' = fb_callback ?t"
      "should_close s'" "prefix (calls ?t) (calls s')" "last (calls s') = GlfwWindowShouldClose w"
      by simp_all
    have "prefix (calls s) (calls ?t)"
      by (simp add: iteration_calls)
    from prefix_order.trans[OF this *(5)] have "prefix (calls s) (calls s')" .
    with * show ?thesis by simp
  qed
qed

lemma render_loop_closes:
  "\<exists>b \<in> set (pending s). Close_request \<in> set b \<Longrightarrow>
   \<exists>s'. render_loop (Suc (length (pending s))) w p v s = Some s'"
proof (induction "pending s" arbitrary: s)
  case Nil
  then show ?case by simp
next
  case (Cons b bs)
  show ?case
  proof (cases "should_close s")
    case True
    then show ?thesis by (simp add: render_loop_closing del: render_loop.simps)
  next
    case False
    let ?t = "iteration w p v (api (GlfwWindowShouldClose w) s)"
    have pend: "pending ?t = bs"
      using Cons.hyps(2)[symmetric] by simp
    have run: "render_loop (Suc (length (pending s))) w p v s = render_loop (Suc (length bs)) w p v ?t"
      using False Cons.hyps(2)[symmetric] by (simp add: render_loop_running del: render_loop.simps)
    show ?thesis
    proof (cases "Close_request \<in> set b")
      case True
      then have "should_close ?t"
        using Cons.hyps(2)[symmetric]
        by (simp add: iteration_def glfwPollEvents_close_request next_batch_def)
      then show ?thesis
        by (simp add: run render_loop_closing del: render_loop.simps)
    next
      case False
      with Cons.prems Cons.hyps(2)[symmetric] have "\<exists>b \<in> set (pending ?t). Close_request \<in> set b"
        by (simp add: pend)
      from Cons.hyps(1)[OF pend[symmetric] this]
      have "\<exists>s'. render_loop (Suc (length (pending ?t))) w p v ?t = Some s'" .
      then show ?thesis
        unfolding pend run .
    qed
  qed
qed


section \<open>Before the loop\<close>

lemmas startup_defs =
  startup_def create_context_def build_shader_program_def setup_geometry_def
  glfwCreateWindow_def glfwMakeContextCurrent_def glfwSetFramebufferSizeCallback_def
  init_world_def window_created_def Let_def

lemma startup_early:
  "\<not> window_created e \<or> \<not> glewInit_ok e \<Longrightarrow> \<exists>s. startup e = Inl (- 1, s)"
  by (auto simp: startup_defs split: option.split)

lemma startup_no_window:
  "\<not> window_created e \<Longrightarrow>
   \<exists>s. startup e = Inl (- 1, s) \<and> calls s = context_calls e @ [GlfwTerminate] \<and>
       cout s = ''Failed to create GLFW window\<newline>'' \<and> cerr s = []"
  by (auto simp: startup_defs context_calls_def SCR_WIDTH_def SCR_HEIGHT_def split: option.split)

lemma startup_no_loader:
  "window_created e \<Longrightarrow> \<not> glewInit_ok e \<Longrightarrow>
   \<exists>s. startup e = Inl (- 1, s) \<and> GlfwTerminate \<notin> set (calls s) \<and>
       cout s = ''Failed to initialize GLEW\<newline>'' \<and> cerr s = []"
  by (auto simp: startup_defs split: option.split)

lemma startup_entry:
  "window_created e \<Longrightarrow> glewInit_ok e \<Longrightarrow>
   \<exists>s. startup e = Inr (the (created_window e), program_id e, vao_id e, vbo_id e, s)"
  by (auto simp: startup_defs split: option.split)

lemma startup_Inr:
  "startup e = Inr (w, p, vao, vbo, s) \<Longrightarrow>
   window_created e \<and> glewInit_ok e \<and> created_window e = Some w \<and>
   p = program_id e \<and> vao = vao_id e \<and> vbo = vbo_id e"
  by (auto simp: startup_defs split: option.splits if_splits)

lemma startup_Inl:
  "startup e = Inl (code, s) \<Longrightarrow> code = - 1 \<and> (\<not> window_created e \<or> \<not> glewInit_ok e)"
  by (auto simp: startup_defs split: option.splits if_splits)

lemma startup_state:
  "startup e = Inr (w, p, vao, vbo, s) \<Longrightarrow>
   cout s = shader_diagnostics e \<and> cerr s = [] \<and> \<not> should_close s \<and>
   fb_callback s = Some (w, Framebuffer_size_callback) \<and> pending s = events e \<and>
   escape_key s = GLFW_RELEASE"
  by (auto simp: startup_defs shader_diagnostics_def info_log_def split: option.splits if_splits)

lemma setup_geometry_calls:
  "calls (snd (setup_geometry e s)) = calls s @ geometry_calls e"
  by (simp add: setup_geometry_def geometry_calls_def sizeof_vertices_def sizeof_float_def
      vertices_def Let_def)

lemma startup_geometry:
  assumes "startup e = Inr (w, p, vao, vbo, s)"
  shows "suffix (geometry_calls e) (calls s)"
proof -
  from assms obtain s1 where "setup_geometry e s1 = ((vbo, vao), s)"
    by (auto simp: startup_def split: sum.splits prod.splits)
  with setup_geometry_calls[of e s1] have "calls s = calls s1 @ geometry_calls e"
    by simp
  then show ?thesis
    by (simp add: suffix_def)
qed


section \<open>The whole run\<close>

lemmas run_defs =
  main_def startup_defs cleanup_def glfwWindowShouldClose_def iteration_def
  glfwPollEvents_def processInput_def glfwGetKey_def glfwSetWindowShouldClose_def

lemma main_early:
  "\<not> window_created e \<or> \<not> glewInit_ok e \<Longrightarrow> \<exists>s. main e fuel = Some (- 1, s)"
  using startup_early[of e] by (auto simp: main_def)

lemma main_clean:
  assumes "window_created e" "glewInit_ok e" "main e fuel = Some (code, s)"
  shows "code = 0 \<and> should_close s \<and> suffix (cleanup_calls e) (calls s)"
proof -
  from startup_entry[OF assms(1,2)] obtain s1 where
    st: "startup e = Inr (the (created_window e), program_id e, vao_id e, vbo_id e, s1)" ..
  with assms(3) obtain s2 where
    lp: "render_loop fuel (the (created_window e)) (program_id e) (vao_id e) s1 = Some s2" and
    r: "code = 0" "s = cleanup (vao_id e) (vbo_id e) (program_id e) s2"
    by (auto simp: main_def split: option.splits)
  from render_loop_Some[OF lp] have "should_close s2"
    by simp
  with r show ?thesis
    by (simp add: cleanup_def cleanup_calls_def suffix_def)
qed

lemma main_returns:
  assumes "window_created e" "glewInit_ok e" "list_ex (\<lambda>b. Close_request \<in> set b) (events e)"
  shows "\<exists>s. main e (Suc (length (events e))) = Some (0, s)"
proof -
  from startup_entry[OF assms(1,2)] obtain s1 where
    st: "startup e = Inr (the (created_window e), program_id e, vao_id e, vbo_id e, s1)" ..
  from startup_state[OF st] have pend: "pending s1 = events e"
    by simp
  with assms(3) have "\<exists>b \<in> set (pending s1). Close_request \<in> set b"
    by (simp add: list_ex_iff)
  from render_loop_closes[OF this, of "the (created_window e)" "program_id e" "vao_id e"]
  show ?thesis
    by (auto simp: main_def st pend)
qed

lemma main_zero:
  assumes "main e fuel = Some (0, s')"
  shows "\<exists>w p vao vbo s. startup e = Inr (w, p, vao, vbo, s) \<and> cout s' = cout s \<and> cerr s' = cerr s"
proof -
  from assms obtain w p vao vbo s s2 where
    st: "startup e = Inr (w, p, vao, vbo, s)" and
    lp: "render_loop fuel w p vao s = Some s2" and
    s': "s' = cleanup vao vbo p s2"
    by (auto simp: main_def split: sum.splits option.splits dest: startup_Inl)
  from render_loop_Some[OF lp] have "cout s' = cout s" "cerr s' = cerr s"
    by (simp_all add: s' cleanup_def)
  with st show ?thesis
    by blast
qed

lemma fragment_header_printed:
  assumes "\<not> fragment_compiled e"
  shows "sublist ''FRAGMENT::COMPILATION_FAILED'' (shader_diagnostics e)"
proof -
  from assms have "shader_diagnostics e =
      ((if vertex_compiled e then []
        else ''ERROR::SHADER::VERTEX::COMPILATION_FAILED\<newline>'' @ take 511 (vertex_log e) @ ''\<newline>'') @
       ''ERROR::SHADER::'') @
      ''FRAGMENT::COMPILATION_FAILED'' @
      (''\<newline>'' @ take 511 (fragment_log e) @ ''\<newline>'' @
       (if program_linked e then []
        else ''ERROR::SHADER::PROGRAM::LINKING_FAILED\<newline>'' @ take 511 (program_log e) @ ''\<newline>''))"
    by (simp add: shader_diagnostics_def)
  then show ?thesis
    by (simp only: sublist_appendI)
qed

section \<open>The order of an iteration\<close>

text \<open>
  Claim C1, as amended. In every iteration of the render loop the calls are made in this
  order: the input phase, which asks for the state of the Escape key and sets the close
  flag if it is pressed, and polls nothing; the clear phase; the draw phase; the buffer
  swap; and last glfwPollEvents, inside which the resize callback runs. Polling is the
  last step of an iteration, after the swap.
\<close>

theorem render_iteration_order:
  "calls (iteration w p v s) =
     calls s @
     [GlfwGetKey w GLFW_KEY_ESCAPE] @
     (if escape_key s = GLFW_PRESS then [GlfwSetWindowShouldClose w True] else []) @
     [GlClearColor clear_grey clear_grey clear_grey 1, GlClear GL_COLOR_BUFFER_BIT] @
     [GlUseProgram p, GlBindVertexArray v, GlDrawArrays GL_TRIANGLES 0 6] @
     [GlfwSwapBuffers w] @
     [GlfwPollEvents] @ resize_calls (fb_callback s) (next_batch s)"
  by (simp add: iteration_calls)

text \<open>
  Claim C1 as the specification states it, with polling in the input phase ahead of the
  clear, the draw and the swap, fails on the first iteration of the sample run: the calls
  of that iteration are not in the order of the specification's phases, glfwPollEvents
  coming after glfwSwapBuffers.
\<close>

theorem poll_before_clear_counterexample:
  "map_option (spec_phase_order \<circ> calls_of_iteration 1 3 1) (loop_entry env_ok) = Some False"
proof -
  have w: "window_created env_ok" "glewInit_ok env_ok"
    by (simp_all add: window_created_def env_ok_def)
  from startup_entry[OF w] obtain s where s: "startup env_ok = Inr (1, 3, 1, 1, s)"
    by (auto simp: env_ok_def)
  from startup_state[OF s]
  have "calls_of_iteration 1 3 1 s =
      [GlfwGetKey 1 GLFW_KEY_ESCAPE,
       GlClearColor clear_grey clear_grey clear_grey 1, GlClear GL_COLOR_BUFFER_BIT,
       GlUseProgram 3, GlBindVertexArray 1, GlDrawArrays GL_TRIANGLES 0 6,
       GlfwSwapBuffers 1, GlfwPollEvents, GlViewport 0 0 1024 768]"
    by (simp add: calls_of_iteration_def iteration_calls next_batch_def env_ok_def)
  then show ?thesis
    by (simp add: loop_entry_def s spec_phase_order_def)
qed

section \<open>Where the diagnostics go\<close>

text \<open>
  Claim C2, as amended. Whenever a shader stage fails to compile or the program fails to
  link, the header line and the retrieved info log (its first 511 characters) are written
  to standard output: at the entry of the render loop, and still when main returns 0,
  standard output holds exactly these reports, in the order vertex, fragment, link. With
  a broken fragment shader it contains the substring FRAGMENT::COMPILATION_FAILED.
  Nothing is written to standard error.
\<close>

theorem diagnostics_on_stdout:
  "(startup e = Inr (w, p, vao, vbo, s) \<longrightarrow>
      cout s = shader_diagnostics e \<and> cerr s = [] \<and>
      (\<not> fragment_compiled e \<longrightarrow> sublist ''FRAGMENT::COMPILATION_FAILED'' (cout s))) \<and>
   (main e fuel = Some (0, s') \<longrightarrow>
      cout s' = shader_diagnostics e \<and> cerr s' = [] \<and>
      (\<not> fragment_compiled e \<longrightarrow> sublist ''FRAGMENT::COMPILATION_FAILED'' (cout s')))"
proof (intro conjI impI)
  assume st: "startup e = Inr (w, p, vao, vbo, s)"
  from startup_state[OF st] show c: "cout s = shader_diagnostics e" and "cerr s = []"
    by simp_all
  assume "\<not> fragment_compiled e"
  from fragment_header_printed[OF this] c
  show "sublist ''FRAGMENT::COMPILATION_FAILED'' (cout s)"
    by simp
next
  assume m: "main e fuel = Some (0, s')"
  from main_zero[OF m] obtain w1 p1 vao1 vbo1 s1 where
    st: "startup e = Inr (w1, p1, vao1, vbo1, s1)" and
    eq: "cout s' = cout s1" "cerr s' = cerr s1"
    by blast
  from startup_state[OF st] eq show c: "cout s' = shader_diagnostics e" and "cerr s' = []"
    by simp_all
  assume "\<not> fragment_compiled e"
  from fragment_header_printed[OF this] c
  show "sublist ''FRAGMENT::COMPILATION_FAILED'' (cout s')"
    by simp
qed

text \<open>
  The theorem at a run with a broken fragment shader: the report is on standard output,
  and standard error is empty.
\<close>

theorem diagnostics_on_stdout_witness:
  "map_option (cout \<circ> snd) (main env_broken_fragment 2) =
     Some ''ERROR::SHADER::FRAGMENT::COMPILATION_FAILED\<newline>0:5(1): error: syntax error\<newline>'' \<and>
   map_option (cerr \<circ> snd) (main env_broken_fragment 2) = Some [] \<and>
   map_option (sublist ''FRAGMENT::COMPILATION_FAILED'' \<circ> cout \<circ> snd)
     (main env_broken_fragment 2) = Some True"
proof -
  obtain s' where m: "main env_broken_fragment 2 = Some (0, s')"
    by (simp add: run_defs env_broken_fragment_def env_ok_def numeral_2_eq_2)
  have d: "shader_diagnostics env_broken_fragment =
      ''ERROR::SHADER::FRAGMENT::COMPILATION_FAILED\<newline>0:5(1): error: syntax error\<newline>''"
    by (simp add: shader_diagnostics_def env_broken_fragment_def env_ok_def)
  have f: "\<not> fragment_compiled env_broken_fragment"
    by (simp add: env_broken_fragment_def)
  from diagnostics_on_stdout[of env_broken_fragment 1 3 1 1 s' 2 s'] m f
  have "cout s' = shader_diagnostics env_broken_fragment" "cerr s' = []"
    "sublist ''FRAGMENT::COMPILATION_FAILED'' (cout s')"
    by blast+
  then show ?thesis
    by (simp add: m d)
qed

text \<open>
  Claim C2 as the specification states it, with the report on standard error, fails at
  the same run: standard error does not contain the substring.
\<close>

theorem stderr_counterexample:
  "map_option (sublist ''FRAGMENT::COMPILATION_FAILED'' \<circ> cerr \<circ> snd)
     (main env_broken_fragment 2) = Some False"
  by (simp add: run_defs env_broken_fragment_def env_ok_def numeral_2_eq_2)

section \<open>Teardown of the windowing subsystem\<close>

text \<open>
  Claim C3 says that glfwTerminate is called on every exit path after glfwInit. On the
  path where glewInit fails (lines 71-75) it is not: main returns -1 and glfwTerminate
  is not among its calls, while the path where no window is created (lines 60-65) and the
  normal path (line 186) both make the call.
\<close>

theorem loader_failure_skips_terminate:
  "map_option fst (main env_loader_fails 0) = Some (- 1) \<and>
   map_option ((\<in>) GlfwTerminate \<circ> set \<circ> calls \<circ> snd) (main env_loader_fails 0) = Some False"
  by (simp add: run_defs env_loader_fails_def env_ok_def)

section \<open>The exit code\<close>

text \<open>
  Claim C4. main returns -1 when no window is created or the loader fails, whatever
  the fuel; in every other run that returns, it returns 0, the close flag is set, and
  its last calls release the vertex array, the buffer and the program and terminate
  GLFW; so no other exit code is produced. Such a run does return: when some batch of
  events holds a close request, one unit of fuel more than there are batches is enough.
  main takes no argument vector.
\<close>

theorem main_exit_code:
  "(\<not> window_created e \<or> \<not> glewInit_ok e \<longrightarrow> (\<exists>s. main e fuel = Some (- 1, s))) \<and>
   (window_created e \<and> glewInit_ok e \<longrightarrow>
      (\<forall>code s. main e fuel = Some (code, s) \<longrightarrow>
         code = 0 \<and> should_close s \<and> suffix (cleanup_calls e) (calls s))) \<and>
   (\<forall>code s. main e fuel = Some (code, s) \<longrightarrow> code = 0 \<or> code = - 1) \<and>
   (window_created e \<and> glewInit_ok e \<and> list_ex (\<lambda>b. Close_request \<in> set b) (events e) \<longrightarrow>
      (\<exists>s. main e (Suc (length (events e))) = Some (0, s)))"
proof -
  have "code = 0 \<or> code = - 1" if "main e fuel = Some (code, s)" for code s
    using that main_early[of e fuel] main_clean[of e fuel code s] by fastforce
  then show ?thesis
    using main_early[of e fuel] main_clean[of e fuel] main_returns[of e] by blast
qed

text \<open>
  The theorem at three runs: glfwInit fails, glewInit fails, and a run that is closed
  during its second frame.
\<close>

theorem main_exit_code_witness:
  "map_option fst (main env_no_glfw 0) = Some (- 1) \<and>
   map_option fst (main env_loader_fails 0) = Some (- 1) \<and>
   map_option fst (main env_closed 3) = Some 0 \<and>
   map_option (should_close \<circ> snd) (main env_closed 3) = Some True \<and>
   map_option (suffix (cleanup_calls env_closed) \<circ> calls \<circ> snd) (main env_closed 3) = Some True"
proof -
  have a: "\<not> window_created env_no_glfw"
    by (simp add: window_created_def env_no_glfw_def)
  have b: "\<not> glewInit_ok env_loader_fails"
    by (simp add: env_loader_fails_def)
  have c: "window_created env_closed \<and> glewInit_ok env_closed \<and>
      list_ex (\<lambda>b. Close_request \<in> set b) (events env_closed)"
    by (simp add: window_created_def env_closed_def env_ok_def)
  have l: "Suc (length (events env_closed)) = 3"
    by (simp add: env_closed_def)
  from main_exit_code[of env_no_glfw 0] a
  obtain s1 where s1: "main env_no_glfw 0 = Some (- 1, s1)" by blast
  from main_exit_code[of env_loader_fails 0] b
  obtain s2 where s2: "main env_loader_fails 0 = Some (- 1, s2)" by blast
  from main_exit_code[of env_closed 3] c l
  obtain s3 where s3: "main env_closed 3 = Some (0, s3)" by auto
  with main_exit_code[of env_closed 3] c
  have "should_close s3" "suffix (cleanup_calls env_closed) (calls s3)" by blast+
  with s1 s2 s3 show ?thesis by simp
qed


section \<open>A failed shader build does not stop the run\<close>

lemma undiagnosed_api: "\<not> is_diagnostic c \<Longrightarrow> undiagnosed (api c s) = api c (undiagnosed s)"
  by (simp add: undiagnosed_def api_def)

lemma undiagnosed_api_diagnostic: "is_diagnostic c \<Longrightarrow> undiagnosed (api c s) = undiagnosed s"
  by (simp add: undiagnosed_def api_def)

lemma undiagnosed_cout_endl: "undiagnosed (cout_endl t s) = undiagnosed s"
  by (simp add: undiagnosed_def cout_endl_def)

lemma undiagnosed_glViewport:
  "undiagnosed (glViewport x y width height s) = glViewport x y width height (undiagnosed s)"
  by (simp add: undiagnosed_def glViewport_def api_def)

lemma undiagnosed_fields [simp]:
  "should_close (undiagnosed s) = should_close s"
  "escape_key (undiagnosed s) = escape_key s"
  "fb_callback (undiagnosed s) = fb_callback s"
  "pending (undiagnosed s) = pending s"
  by (simp_all add: undiagnosed_def)

lemma undiagnosed_deliver: "undiagnosed (deliver ev s) = deliver ev (undiagnosed s)"
  by (cases ev) (simp_all add: deliver_cases undiagnosed_glViewport, simp_all add: undiagnosed_def)

lemma undiagnosed_fold_deliver:
  "undiagnosed (fold deliver evs s) = fold deliver evs (undiagnosed s)"
  by (induction evs arbitrary: s) (simp_all add: undiagnosed_deliver)

lemma undiagnosed_pending: "undiagnosed (s\<lparr>pending := x\<rparr>) = (undiagnosed s)\<lparr>pending := x\<rparr>"
  by (simp add: undiagnosed_def)

lemma undiagnosed_glfwPollEvents: "undiagnosed (glfwPollEvents s) = glfwPollEvents (undiagnosed s)"
  by (cases "pending s")
    (simp_all add: glfwPollEvents_def undiagnosed_fold_deliver undiagnosed_api undiagnosed_pending)

lemma undiagnosed_processInput: "undiagnosed (processInput w s) = processInput w (undiagnosed s)"
  by (simp add: processInput_def glfwGetKey_def glfwSetWindowShouldClose_def undiagnosed_api)
    (simp add: undiagnosed_def api_def)

lemma undiagnosed_iteration:
  "undiagnosed (iteration w p v s) = iteration w p v (undiagnosed s)"
  by (simp add: iteration_def undiagnosed_glfwPollEvents undiagnosed_api undiagnosed_processInput)

lemma undiagnosed_render_loop:
  "map_option undiagnosed (render_loop n w p v s) = render_loop n w p v (undiagnosed s)"
proof (induction n arbitrary: s)
  case 0
  show ?case by simp
next
  case (Suc n)
  show ?case
  proof (cases "should_close s")
    case True
    then show ?thesis
      by (simp add: render_loop_closing undiagnosed_api del: render_loop.simps)
  next
    case False
    then show ?thesis
      by (simp add: render_loop_running Suc.IH undiagnosed_iteration undiagnosed_api
          del: render_loop.simps)
  qed
qed

lemma undiagnosed_cleanup:
  "undiagnosed (cleanup vao vbo p s) = cleanup vao vbo p (undiagnosed s)"
  by (simp add: cleanup_def undiagnosed_api)

lemma create_context_all_compiled:
  "create_context (all_compiled e) (init_world (all_compiled e)) = create_context e (init_world e)"
  by (simp add: create_context_def init_world_def all_compiled_def glfwCreateWindow_def
      glfwMakeContextCurrent_def Let_def split: option.split)

lemma build_shader_program_all_compiled:
  "fst (build_shader_program (all_compiled e) s) = fst (build_shader_program e s)"
  "undiagnosed (snd (build_shader_program (all_compiled e) s)) =
   undiagnosed (snd (build_shader_program e s))"
  by (simp_all add: build_shader_program_def all_compiled_def Let_def undiagnosed_api
      undiagnosed_api_diagnostic undiagnosed_cout_endl)

lemma setup_geometry_undiagnosed:
  "fst (setup_geometry e s) = (vbo_id e, vao_id e)"
  "undiagnosed (snd (setup_geometry e s)) = snd (setup_geometry e (undiagnosed s))"
  "setup_geometry (all_compiled e) s = setup_geometry e s"
  by (simp_all add: setup_geometry_def Let_def undiagnosed_api all_compiled_def)

lemma main_undiagnosed:
  "map_option (apsnd undiagnosed) (main e fuel) =
     (case create_context e (init_world e) of
        Inl r \<Rightarrow> Some (apsnd undiagnosed r)
      | Inr (w, s) \<Rightarrow>
          map_option (\<lambda>s'. (0, cleanup (vao_id e) (vbo_id e) (fst (build_shader_program e s)) s'))
            (render_loop fuel w (fst (build_shader_program e s)) (vao_id e)
               (snd (setup_geometry e (undiagnosed (snd (build_shader_program e s)))))))"
proof (cases "create_context e (init_world e)")
  case (Inl r)
  then show ?thesis by (simp add: main_def startup_def)
next
  case (Inr r)
  obtain w s where r: "r = (w, s)" by (cases r)
  obtain p s1 where b: "build_shader_program e s = (p, s1)" by (cases "build_shader_program e s")
  obtain s2 where g: "setup_geometry e s1 = ((vbo_id e, vao_id e), s2)"
    using setup_geometry_undiagnosed(1)[of e s1] by (cases "setup_geometry e s1") auto
  have u: "undiagnosed s2 = snd (setup_geometry e (undiagnosed s1))"
    using setup_geometry_undiagnosed(2)[of e s1] g by simp
  have "map_option (apsnd undiagnosed) (main e fuel) =
      map_option (\<lambda>s'. (0, cleanup (vao_id e) (vbo_id e) p s'))
        (map_option undiagnosed (render_loop fuel w p (vao_id e) s2))"
    by (cases "render_loop fuel w p (vao_id e) s2")
      (simp_all add: main_def startup_def Inr r b g undiagnosed_cleanup)
  then show ?thesis
    by (simp add: Inr r b undiagnosed_render_loop u)
qed

lemma startup_diagnostic_calls:
  "startup e = Inr (w, p, vao, vbo, s) \<Longrightarrow> filter is_diagnostic (calls s) = diagnostic_calls e"
  by (auto simp: startup_defs diagnostic_calls_def split: option.splits if_splits)

lemma shader_diagnostics_empty:
  "shader_diagnostics e = [] \<longleftrightarrow> vertex_compiled e \<and> fragment_compiled e \<and> program_linked e"
  by (simp add: shader_diagnostics_def)

lemma render_loop_tests:
  "render_loop n w p v s = Some s' \<Longrightarrow> GlfwWindowShouldClose w \<in> set (calls s')"
proof (induction n arbitrary: s)
  case 0
  then show ?case by simp
next
  case (Suc n)
  show ?case
  proof (cases "should_close s")
    case True
    with Suc.prems show ?thesis
      by (auto simp: render_loop_closing simp del: render_loop.simps)
  next
    case False
    with Suc.prems
    have "render_loop n w p v (iteration w p v (api (GlfwWindowShouldClose w) s)) = Some s'"
      by (simp add: render_loop_running del: render_loop.simps)
    from Suc.IH[OF this] show ?thesis .
  qed
qed

lemma main_enters_loop:
  assumes "startup e = Inr (w, p, vao, vbo, s)"
  shows "main e fuel = map_option (\<lambda>s'. (0, cleanup vao vbo p s')) (render_loop fuel w p vao s)"
    and "main e (Suc fuel) =
      map_option (\<lambda>s'. (0, cleanup vao vbo p s'))
        (render_loop fuel w p vao (iteration w p vao (snd (glfwWindowShouldClose w s))))"
    and "main e fuel = Some (code, s') \<Longrightarrow> code = 0 \<and> GlfwWindowShouldClose w \<in> set (calls s')"
proof -
  show m: "main e fuel = map_option (\<lambda>s'. (0, cleanup vao vbo p s')) (render_loop fuel w p vao s)"
    for fuel
    by (simp add: main_def assms map_option_case)
  from startup_state[OF assms] have "\<not> should_close s"
    by simp
  then have "render_loop (Suc fuel) w p vao s =
      render_loop fuel w p vao (iteration w p vao (snd (glfwWindowShouldClose w s)))"
    by (simp add: render_loop_running glfwWindowShouldClose_def del: render_loop.simps)
  then show "main e (Suc fuel) =
      map_option (\<lambda>s'. (0, cleanup vao vbo p s'))
        (render_loop fuel w p vao (iteration w p vao (snd (glfwWindowShouldClose w s))))"
    by (simp only: m)
  assume "main e fuel = Some (code, s')"
  with m[of fuel] obtain s2 where
    lp: "render_loop fuel w p vao s = Some s2" and r: "code = 0" "s' = cleanup vao vbo p s2"
    by (cases "render_loop fuel w p vao s") auto
  from render_loop_tests[OF lp] r
  show "code = 0 \<and> GlfwWindowShouldClose w \<in> set (calls s')"
    by (simp add: cleanup_def)
qed

text \<open>
  Claim C5. Whatever the outcome of the two compilations and of the link, a run in which
  the window is created and the loader succeeds passes the shader build and enters the
  render loop: main is the render loop run from the state the shader build and the
  geometry setup leave, followed by the cleanup; the close flag is not set there, so with
  any fuel left the first iteration is executed; and a run that returns has tested the
  loop condition and returns 0, never the -1 of an abort. At the entry of the loop a
  failure has been reported: standard output holds the report of each failure (and is
  empty exactly when there is none) and an info log was retrieved for each. The failure
  changes nothing else: a run, its diagnostic report apart (the info-log retrievals and
  the text printed), is the run in which everything compiled and linked, with the same
  calls in the same order, the same final state, the same exit code, and the fuel running
  out in one exactly when it does in the other.
\<close>

theorem shader_failure_continues:
  "(window_created e \<and> glewInit_ok e \<longrightarrow>
      (\<exists>s. startup e = Inr (the (created_window e), program_id e, vao_id e, vbo_id e, s) \<and>
           cout s = shader_diagnostics e \<and>
           (cout s = [] \<longleftrightarrow> vertex_compiled e \<and> fragment_compiled e \<and> program_linked e) \<and>
           filter is_diagnostic (calls s) = diagnostic_calls e \<and>
           \<not> should_close s \<and>
           main e fuel =
             map_option (\<lambda>s'. (0, cleanup (vao_id e) (vbo_id e) (program_id e) s'))
               (render_loop fuel (the (created_window e)) (program_id e) (vao_id e) s) \<and>
           main e (Suc fuel) =
             map_option (\<lambda>s'. (0, cleanup (vao_id e) (vbo_id e) (program_id e) s'))
               (render_loop fuel (the (created_window e)) (program_id e) (vao_id e)
                  (iteration (the (created_window e)) (program_id e) (vao_id e)
                     (snd (glfwWindowShouldClose (the (created_window e)) s))))) \<and>
      (\<forall>code s'. main e fuel = Some (code, s') \<longrightarrow>
         code = 0 \<and> GlfwWindowShouldClose (the (created_window e)) \<in> set (calls s'))) \<and>
   map_option (apsnd undiagnosed) (main e fuel) =
   map_option (apsnd undiagnosed) (main (all_compiled e) fuel)"
proof (intro conjI impI)
  assume h: "window_created e \<and> glewInit_ok e"
  with startup_entry[of e] obtain s where
    st: "startup e = Inr (the (created_window e), program_id e, vao_id e, vbo_id e, s)"
    by blast
  from startup_state[OF st] have c: "cout s = shader_diagnostics e" and n: "\<not> should_close s"
    by simp_all
  from c shader_diagnostics_empty[of e]
  have d: "cout s = [] \<longleftrightarrow> vertex_compiled e \<and> fragment_compiled e \<and> program_linked e"
    by simp
  note f = startup_diagnostic_calls[OF st]
  note m = main_enters_loop(1)[OF st, of fuel] main_enters_loop(2)[OF st, of fuel]
  from st c d f n m
  show "\<exists>s. startup e = Inr (the (created_window e), program_id e, vao_id e, vbo_id e, s) \<and>
           cout s = shader_diagnostics e \<and>
           (cout s = [] \<longleftrightarrow> vertex_compiled e \<and> fragment_compiled e \<and> program_linked e) \<and>
           filter is_diagnostic (calls s) = diagnostic_calls e \<and>
           \<not> should_close s \<and>
           main e fuel =
             map_option (\<lambda>s'. (0, cleanup (vao_id e) (vbo_id e) (program_id e) s'))
               (render_loop fuel (the (created_window e)) (program_id e) (vao_id e) s) \<and>
           main e (Suc fuel) =
             map_option (\<lambda>s'. (0, cleanup (vao_id e) (vbo_id e) (program_id e) s'))
               (render_loop fuel (the (created_window e)) (program_id e) (vao_id e)
                  (iteration (the (created_window e)) (program_id e) (vao_id e)
                     (snd (glfwWindowShouldClose (the (created_window e)) s))))"
    by blast
  from main_enters_loop(3)[OF st, of fuel]
  show "\<forall>code s'. main e fuel = Some (code, s') \<longrightarrow>
         code = 0 \<and> GlfwWindowShouldClose (the (created_window e)) \<in> set (calls s')"
    by blast
next
  have "vao_id (all_compiled e) = vao_id e" "vbo_id (all_compiled e) = vbo_id e"
    by (simp_all add: all_compiled_def)
  then show "map_option (apsnd undiagnosed) (main e fuel) =
      map_option (apsnd undiagnosed) (main (all_compiled e) fuel)"
    unfolding main_undiagnosed
    by (simp add: create_context_all_compiled build_shader_program_all_compiled
        setup_geometry_undiagnosed(3) split: sum.split)
qed

text \<open>
  The theorem at the run with a broken fragment shader, closed during its first frame:
  at the entry of the loop the report is on standard output and the fragment shader's
  info log was retrieved; main is the loop from there and the cleanup; it returns 0 after
  testing the loop condition; and without the retrieval of the info log its calls are
  those of the run with a sound shader.
\<close>

theorem shader_failure_continues_witness:
  "(\<exists>s. startup env_broken_fragment = Inr (1, 3, 1, 1, s) \<and>
        cout s =
          ''ERROR::SHADER::FRAGMENT::COMPILATION_FAILED\<newline>0:5(1): error: syntax error\<newline>'' \<and>
        filter is_diagnostic (calls s) = [GlGetShaderInfoLog 2 512] \<and>
        main env_broken_fragment 2 =
          map_option (\<lambda>s'. (0, cleanup 1 1 3 s')) (render_loop 2 1 3 1 s)) \<and>
   map_option fst (main env_broken_fragment 2) = Some 0 \<and>
   map_option ((\<in>) (GlfwWindowShouldClose 1) \<circ> set \<circ> calls \<circ> snd)
     (main env_broken_fragment 2) = Some True \<and>
   map_option (calls \<circ> undiagnosed \<circ> snd) (main env_broken_fragment 2) =
   map_option (calls \<circ> snd) (main (all_compiled env_broken_fragment) 2)"
proof -
  have w: "window_created env_broken_fragment \<and> glewInit_ok env_broken_fragment"
    by (simp add: window_created_def env_broken_fragment_def env_ok_def)
  have v: "the (created_window env_broken_fragment) = 1" "program_id env_broken_fragment = 3"
    "vao_id env_broken_fragment = 1" "vbo_id env_broken_fragment = 1"
    by (simp_all add: env_broken_fragment_def env_ok_def)
  have d: "shader_diagnostics env_broken_fragment =
      ''ERROR::SHADER::FRAGMENT::COMPILATION_FAILED\<newline>0:5(1): error: syntax error\<newline>''"
    "diagnostic_calls env_broken_fragment = [GlGetShaderInfoLog 2 512]"
    by (simp_all add: shader_diagnostics_def diagnostic_calls_def env_broken_fragment_def
        env_ok_def)
  obtain s' where m: "main (all_compiled env_broken_fragment) 2 = Some (0, s')"
    by (simp add: run_defs all_compiled_def env_broken_fragment_def env_ok_def numeral_2_eq_2)
  have c: "calls (undiagnosed s') = calls s'"
    using m
    by (auto simp add: run_defs all_compiled_def env_broken_fragment_def env_ok_def
        numeral_2_eq_2 undiagnosed_def api_def)
  note t = shader_failure_continues[of env_broken_fragment 2, unfolded v d]
  from t w obtain s where
    s: "startup env_broken_fragment = Inr (1, 3, 1, 1, s)"
      "cout s =
        ''ERROR::SHADER::FRAGMENT::COMPILATION_FAILED\<newline>0:5(1): error: syntax error\<newline>''"
      "filter is_diagnostic (calls s) = [GlGetShaderInfoLog 2 512]"
      "main env_broken_fragment 2 =
        map_option (\<lambda>s'. (0, cleanup 1 1 3 s')) (render_loop 2 1 3 1 s)"
    by blast
  from t w have r: "\<forall>code s'. main env_broken_fragment 2 = Some (code, s') \<longrightarrow>
      code = 0 \<and> GlfwWindowShouldClose 1 \<in> set (calls s')"
    and e: "map_option (apsnd undiagnosed) (main env_broken_fragment 2) =
      map_option (apsnd undiagnosed) (main (all_compiled env_broken_fragment) 2)"
    by blast+
  from e m obtain s2 where m2: "main env_broken_fragment 2 = Some (0, s2)"
    and u: "undiagnosed s2 = undiagnosed s'"
    by (cases "main env_broken_fragment 2") auto
  from r m2 have k: "GlfwWindowShouldClose 1 \<in> set (calls s2)"
    by blast
  have g: "\<exists>s. startup env_broken_fragment = Inr (1, 3, 1, 1, s) \<and>
        cout s =
          ''ERROR::SHADER::FRAGMENT::COMPILATION_FAILED\<newline>0:5(1): error: syntax error\<newline>'' \<and>
        filter is_diagnostic (calls s) = [GlGetShaderInfoLog 2 512] \<and>
        main env_broken_fragment 2 =
          map_option (\<lambda>s'. (0, cleanup 1 1 3 s')) (render_loop 2 1 3 1 s)"
    using s by blast
  from k u c have "map_option fst (main env_broken_fragment 2) = Some 0"
    "map_option ((\<in>) (GlfwWindowShouldClose 1) \<circ> set \<circ> calls \<circ> snd)
       (main env_broken_fragment 2) = Some True"
    "map_option (calls \<circ> undiagnosed \<circ> snd) (main env_broken_fragment 2) =
     map_option (calls \<circ> snd) (main (all_compiled env_broken_fragment) 2)"
    by (simp_all add: m m2)
  with g show ?thesis
    by (intro conjI)
qed

section \<open>The vertex data\<close>

lemma is_draw_resize_calls: "filter is_draw (resize_calls cb evs) = []"
  by (induction cb evs rule: resize_calls.induct) (simp_all split: option.split)

lemma drawn_triangles_value:
  "drawn_triangles 0 6 =
     [([- (1 / 2), - (1 / 2), 0], [1 / 2, - (1 / 2), 0], [1 / 2, 1 / 2, 0]),
      ([1 / 2, 1 / 2, 0], [- (1 / 2), 1 / 2, 0], [- (1 / 2), - (1 / 2), 0])]"
  by (simp add: drawn_triangles_def vertex_position_def attribute_at_def sizeof_float_def
      vertices_def upt_rec)

lemma square_tiled:
  "in_square 1 p \<longleftrightarrow> list_ex (\<lambda>t. covers t p) (drawn_triangles 0 6)"
  by (cases p)
    (auto simp: drawn_triangles_value in_square_def in_triangle_def edge_def xy_def abs_le_iff)

lemma triangles_overlap:
  "covers (drawn_triangles 0 6 ! 0) p \<and> covers (drawn_triangles 0 6 ! 1) p \<longrightarrow> fst p = snd p"
  by (cases p) (auto simp: drawn_triangles_value in_triangle_def edge_def xy_def)

text \<open>
  Claim C6. The vertex array holds six vertices of three floats; read with the declared
  layout they are (-0.5,-0.5,0), (0.5,-0.5,0), (0.5,0.5,0), (0.5,0.5,0), (-0.5,0.5,0),
  (-0.5,-0.5,0). The two triangles that a draw of 6 vertices from vertex 0 makes of them
  tile the axis-aligned square of side 1.0 centred at the origin: a point is in the square
  exactly when one of the triangles covers it, and the triangles share only points of the
  diagonal. The geometry setup uploads this array (72 bytes) and draws nothing; each
  iteration makes one draw call, of GL_TRIANGLES from vertex 0 for 6 vertices.
\<close>

theorem vertex_data_square:
  "length vertices = 6 * 3 \<and>
   map vertex_position [0 ..< 6] =
     [[- 0.5, - 0.5, 0], [0.5, - 0.5, 0], [0.5, 0.5, 0],
      [0.5, 0.5, 0], [- 0.5, 0.5, 0], [- 0.5, - 0.5, 0]] \<and>
   drawn_triangles 0 6 =
     [(vertex_position 0, vertex_position 1, vertex_position 2),
      (vertex_position 3, vertex_position 4, vertex_position 5)] \<and>
   (\<forall>p. in_square 1.0 p \<longleftrightarrow> list_ex (\<lambda>t. covers t p) (drawn_triangles 0 6)) \<and>
   (\<forall>p. covers (drawn_triangles 0 6 ! 0) p \<and> covers (drawn_triangles 0 6 ! 1) p \<longrightarrow>
        fst p = snd p) \<and>
   filter is_draw (calls (snd (setup_geometry e s))) = filter is_draw (calls s) \<and>
   GlBufferData GL_ARRAY_BUFFER (6 * 3 * 4) vertices GL_STATIC_DRAW
     \<in> set (calls (snd (setup_geometry e s))) \<and>
   filter is_draw (calls (iteration w p v s)) =
     filter is_draw (calls s) @ [GlDrawArrays GL_TRIANGLES 0 6]"
proof (intro conjI)
  show "length vertices = 6 * 3"
    by (simp add: vertices_def)
  show "map vertex_position [0 ..< 6] =
     [[- 0.5, - 0.5, 0], [0.5, - 0.5, 0], [0.5, 0.5, 0],
      [0.5, 0.5, 0], [- 0.5, 0.5, 0], [- 0.5, - 0.5, 0]]"
    by (simp add: vertex_position_def attribute_at_def sizeof_float_def vertices_def upt_rec)
  show "drawn_triangles 0 6 =
     [(vertex_position 0, vertex_position 1, vertex_position 2),
      (vertex_position 3, vertex_position 4, vertex_position 5)]"
    by (simp add: drawn_triangles_def vertex_position_def attribute_at_def sizeof_float_def
        vertices_def upt_rec)
  show "\<forall>p. in_square 1.0 p \<longleftrightarrow> list_ex (\<lambda>t. covers t p) (drawn_triangles 0 6)"
    using square_tiled by simp
  show "\<forall>p. covers (drawn_triangles 0 6 ! 0) p \<and> covers (drawn_triangles 0 6 ! 1) p \<longrightarrow>
        fst p = snd p"
    using triangles_overlap by blast
  show "filter is_draw (calls (snd (setup_geometry e s))) = filter is_draw (calls s)"
    by (simp add: setup_geometry_calls geometry_calls_def)
  show "GlBufferData GL_ARRAY_BUFFER (6 * 3 * 4) vertices GL_STATIC_DRAW
     \<in> set (calls (snd (setup_geometry e s)))"
    by (simp add: setup_geometry_calls geometry_calls_def)
  show "filter is_draw (calls (iteration w p v s)) =
     filter is_draw (calls s) @ [GlDrawArrays GL_TRIANGLES 0 6]"
    by (simp add: iteration_calls is_draw_resize_calls)
qed

text \<open>
  The theorem at three points: (0.25, -0.25) is in the square and in the first triangle
  only, the origin is on the shared diagonal, (1, 0) is outside.
\<close>

theorem vertex_data_square_witness:
  "in_square 1 (1 / 4, - (1 / 4)) \<and>
   covers (drawn_triangles 0 6 ! 0) (1 / 4, - (1 / 4)) \<and>
   \<not> covers (drawn_triangles 0 6 ! 1) (1 / 4, - (1 / 4)) \<and>
   covers (drawn_triangles 0 6 ! 0) (0, 0) \<and> covers (drawn_triangles 0 6 ! 1) (0, 0) \<and>
   \<not> list_ex (\<lambda>t. covers t (1, 0)) (drawn_triangles 0 6)"
proof -
  note sq = vertex_data_square[of env_ok "init_world env_ok" 1 3 1]
  have t1: "covers (drawn_triangles 0 6 ! 0) (1 / 4, - (1 / 4))"
    by (simp add: drawn_triangles_value in_triangle_def edge_def xy_def)
  have d: "covers (drawn_triangles 0 6 ! 0) (0, 0)" "covers (drawn_triangles 0 6 ! 1) (0, 0)"
    by (simp_all add: drawn_triangles_value in_triangle_def edge_def xy_def)
  from t1 have "list_ex (\<lambda>t. covers t (1 / 4, - (1 / 4))) (drawn_triangles 0 6)"
    by (simp add: drawn_triangles_value)
  with sq have a: "in_square 1 (1 / 4, - (1 / 4))"
    by simp
  from sq t1 have b: "\<not> covers (drawn_triangles 0 6 ! 1) (1 / 4, - (1 / 4))"
    by fastforce
  have "\<not> in_square 1 (1, 0)"
    by (simp add: in_square_def)
  with sq have c: "\<not> list_ex (\<lambda>t. covers t (1, 0)) (drawn_triangles 0 6)"
    by simp
  from t1 a b c d show ?thesis
    by simp
qed

section \<open>The geometry setup\<close>

text \<open>
  Claim C7. The geometry setup makes these calls and no others, in this order: generate
  the vertex array and the buffer; bind the vertex array; bind the buffer; upload the
  vertex bytes (72 of them) with the static-draw hint; declare attribute 0 as 3 components
  of type float, not normalized, stride 12 bytes, offset 0; enable attribute 0; unbind
  the array buffer, then the vertex array. In a run that reaches the render loop these
  are the last calls before the loop.
\<close>

theorem geometry_setup_order:
  "calls (snd (setup_geometry e s)) =
     calls s @
     [GlGenVertexArrays 1, GlGenBuffers 1] @
     [GlBindVertexArray (vao_id e)] @
     [GlBindBuffer GL_ARRAY_BUFFER (vbo_id e)] @
     [GlBufferData GL_ARRAY_BUFFER 72 vertices GL_STATIC_DRAW] @
     [GlVertexAttribPointer 0 3 GL_FLOAT False 12 0] @
     [GlEnableVertexAttribArray 0] @
     [GlBindBuffer GL_ARRAY_BUFFER 0, GlBindVertexArray 0] \<and>
   fst (setup_geometry e s) = (vbo_id e, vao_id e) \<and>
   (\<forall>w p vao vbo s'. startup e = Inr (w, p, vao, vbo, s') \<longrightarrow>
      suffix (geometry_calls e) (calls s') \<and> vao = vao_id e \<and> vbo = vbo_id e)"
  using startup_geometry[of e] startup_Inr[of e]
  by (simp add: setup_geometry_calls geometry_calls_def setup_geometry_undiagnosed(1))

text \<open>The theorem at a run that reaches the loop.\<close>

theorem geometry_setup_order_witness:
  "\<exists>s. startup env_ok = Inr (1, 3, 1, 1, s) \<and>
     suffix
       [GlGenVertexArrays 1, GlGenBuffers 1, GlBindVertexArray 1, GlBindBuffer GL_ARRAY_BUFFER 1,
        GlBufferData GL_ARRAY_BUFFER 72 vertices GL_STATIC_DRAW,
        GlVertexAttribPointer 0 3 GL_FLOAT False 12 0, GlEnableVertexAttribArray 0,
        GlBindBuffer GL_ARRAY_BUFFER 0, GlBindVertexArray 0]
       (calls s)"
proof -
  have w: "window_created env_ok" "glewInit_ok env_ok"
    by (simp_all add: window_created_def env_ok_def)
  from startup_entry[OF w] obtain s where s: "startup env_ok = Inr (1, 3, 1, 1, s)"
    by (auto simp: env_ok_def)
  with geometry_setup_order[of env_ok] have "suffix (geometry_calls env_ok) (calls s)"
    by blast
  with s show ?thesis
    by (simp add: geometry_calls_def env_ok_def)
qed




section \<open>The viewport after a resize\<close>

lemma fold_deliver_viewport:
  "fb_callback s \<noteq> None \<Longrightarrow>
   viewport (fold deliver evs s) =
     (case last_resize evs of
        None \<Rightarrow> viewport s
      | Some (width, height) \<Rightarrow> (0, 0, width, height))"
proof (induction evs arbitrary: s)
  case Nil
  show ?case by simp
next
  case (Cons ev evs)
  from Cons.prems have "fb_callback (deliver ev s) \<noteq> None"
    by simp
  from Cons.IH[OF this] Cons.prems show ?case
    by (cases ev) (auto simp: deliver_cases split: option.split)
qed

lemma glfwPollEvents_viewport:
  "fb_callback s \<noteq> None \<Longrightarrow> last_resize (next_batch s) = Some (width, height) \<Longrightarrow>
   viewport (glfwPollEvents s) = (0, 0, width, height)"
  by (cases "pending s") (simp_all add: glfwPollEvents_def next_batch_def fold_deliver_viewport)

lemma iteration_viewport:
  "fb_callback s \<noteq> None \<Longrightarrow> last_resize (next_batch s) = Some (width, height) \<Longrightarrow>
   viewport (iteration w p v s) = (0, 0, width, height)"
  by (simp add: iteration_def glfwPollEvents_viewport next_batch_def)

text \<open>
  Claim C8. The resize callback calls glViewport(0, 0, width, height), so that the
  viewport has origin (0,0) and the new dimensions. main registers it before the loop,
  the loop keeps it registered, glfwPollEvents runs it for each new framebuffer size it
  delivers, and after an iteration whose poll delivers new sizes the viewport is the last
  of them.
\<close>

theorem resize_sets_viewport:
  "viewport (framebuffer_size_callback w width height s) = (0, 0, width, height) \<and>
   calls (framebuffer_size_callback w width height s) = calls s @ [GlViewport 0 0 width height] \<and>
   (\<forall>p vao vbo s0. startup e = Inr (w, p, vao, vbo, s0) \<longrightarrow>
      fb_callback s0 = Some (w, Framebuffer_size_callback)) \<and>
   fb_callback (iteration w p v s) = fb_callback s \<and>
   (fb_callback s = Some (w, Framebuffer_size_callback) \<longrightarrow>
      deliver (Framebuffer_resized width height) s = framebuffer_size_callback w width height s) \<and>
   (fb_callback s = Some (w, Framebuffer_size_callback) \<and>
    last_resize (next_batch s) = Some (width, height) \<longrightarrow>
      viewport (iteration w p v s) = (0, 0, width, height))"
  using startup_state[of e w] iteration_viewport[of s width height w p v]
  by (auto simp: framebuffer_size_callback_def)

text \<open>
  The theorem at a run whose first poll delivers the size 1024 x 768: the viewport is
  800 x 600 at the entry of the loop and 1024 x 768 after the first iteration.
\<close>

theorem resize_sets_viewport_witness:
  "viewport (framebuffer_size_callback 1 1024 768 (init_world env_ok)) = (0, 0, 1024, 768) \<and>
   (\<exists>s0. startup env_ok = Inr (1, 3, 1, 1, s0) \<and>
      next_batch s0 = [Framebuffer_resized 1024 768] \<and>
      viewport s0 = (0, 0, 800, 600) \<and>
      viewport (iteration 1 3 1 s0) = (0, 0, 1024, 768))"
proof -
  have w: "window_created env_ok" "glewInit_ok env_ok"
    by (simp_all add: window_created_def env_ok_def)
  from startup_entry[OF w] obtain s0 where s0: "startup env_ok = Inr (1, 3, 1, 1, s0)"
    by (auto simp: env_ok_def)
  from startup_state[OF s0] have n: "next_batch s0 = [Framebuffer_resized 1024 768]"
    by (simp add: next_batch_def env_ok_def)
  from s0 have v: "viewport s0 = (0, 0, 800, 600)"
    by (auto simp: startup_defs env_ok_def)
  from resize_sets_viewport[of 1 1024 768 s0 env_ok 3 1] s0 n
  have "viewport (iteration 1 3 1 s0) = (0, 0, 1024, 768)"
    by simp
  with resize_sets_viewport[of 1 1024 768 "init_world env_ok" env_ok 3 1] s0 n v
  show ?thesis
    by simp
qed

section \<open>Escape ends the loop\<close>

text \<open>
  Claim C9. When an iteration begins with the Escape key reported pressed, its input
  phase sets the close flag, the flag is still set at the end of the iteration whatever
  the poll delivers, the next test of the loop condition finds it set, and the loop ends
  there: with fuel for two tests the loop returns, having run this one iteration and
  made the final test.
\<close>

theorem escape_ends_loop:
  "\<not> should_close s \<and> escape_key s = GLFW_PRESS \<longrightarrow>
     render_loop (Suc (Suc fuel)) w p v s =
       Some (snd (glfwWindowShouldClose w
                    (iteration w p v (snd (glfwWindowShouldClose w s))))) \<and>
     GlfwSetWindowShouldClose w True \<in> set (calls (processInput w s)) \<and>
     should_close (processInput w s) \<and>
     should_close (iteration w p v (snd (glfwWindowShouldClose w s))) \<and>
     fst (glfwWindowShouldClose w (iteration w p v (snd (glfwWindowShouldClose w s))))"
proof (intro impI)
  assume a: "\<not> should_close s \<and> escape_key s = GLFW_PRESS"
  let ?t = "iteration w p v (api (GlfwWindowShouldClose w) s)"
  from a have c: "should_close ?t"
    by (simp add: iteration_keeps_close)
  from a have "render_loop (Suc (Suc fuel)) w p v s = render_loop (Suc fuel) w p v ?t"
    by (simp add: render_loop_running del: render_loop.simps)
  also from c have "\<dots> = Some (api (GlfwWindowShouldClose w) ?t)"
    by (simp add: render_loop_closing del: render_loop.simps)
  finally show "render_loop (Suc (Suc fuel)) w p v s =
       Some (snd (glfwWindowShouldClose w
                    (iteration w p v (snd (glfwWindowShouldClose w s))))) \<and>
     GlfwSetWindowShouldClose w True \<in> set (calls (processInput w s)) \<and>
     should_close (processInput w s) \<and>
     should_close (iteration w p v (snd (glfwWindowShouldClose w s))) \<and>
     fst (glfwWindowShouldClose w (iteration w p v (snd (glfwWindowShouldClose w s))))"
    using a c by (simp add: glfwWindowShouldClose_def)
qed




text \<open>
  The theorem at the state after a first iteration during which Escape was pressed: the
  calls from then on are one test, one iteration that sets the close flag, one test.
\<close>

theorem escape_ends_loop_witness:
  "escape_key (iteration 1 3 1 (init_world env_escape)) = GLFW_PRESS \<and>
   \<not> should_close (iteration 1 3 1 (init_world env_escape)) \<and>
   map_option (drop 8 \<circ> calls) (render_loop 2 1 3 1 (iteration 1 3 1 (init_world env_escape))) =
     Some [GlfwWindowShouldClose 1,
           GlfwGetKey 1 GLFW_KEY_ESCAPE, GlfwSetWindowShouldClose 1 True,
           GlClearColor clear_grey clear_grey clear_grey 1, GlClear GL_COLOR_BUFFER_BIT,
           GlUseProgram 3, GlBindVertexArray 1, GlDrawArrays GL_TRIANGLES 0 6,
           GlfwSwapBuffers 1, GlfwPollEvents,
           GlfwWindowShouldClose 1]"
proof -
  let ?s = "iteration 1 3 1 (init_world env_escape)"
  have a: "escape_key ?s = GLFW_PRESS" "\<not> should_close ?s" "fb_callback ?s = None"
    "calls ?s = [GlfwGetKey 1 GLFW_KEY_ESCAPE,
       GlClearColor clear_grey clear_grey clear_grey 1, GlClear GL_COLOR_BUFFER_BIT,
       GlUseProgram 3, GlBindVertexArray 1, GlDrawArrays GL_TRIANGLES 0 6,
       GlfwSwapBuffers 1, GlfwPollEvents]"
    by (simp_all add: iteration_def processInput_def glfwGetKey_def glfwPollEvents_def
        init_world_def env_escape_def env_ok_def)
  from escape_ends_loop[of ?s 0 1 3 1] a(1,2)
  have "render_loop 2 1 3 1 ?s =
      Some (snd (glfwWindowShouldClose 1 (iteration 1 3 1 (snd (glfwWindowShouldClose 1 ?s)))))"
    by (simp add: numeral_2_eq_2 del: render_loop.simps)
  then have "map_option (drop 8 \<circ> calls) (render_loop 2 1 3 1 ?s) =
      Some (drop 8 (calls (iteration 1 3 1 (api (GlfwWindowShouldClose 1) ?s)) @
        [GlfwWindowShouldClose 1]))"
    by (simp add: glfwWindowShouldClose_def del: render_loop.simps)
  also have "calls (iteration 1 3 1 (api (GlfwWindowShouldClose 1) ?s)) =
      [GlfwGetKey 1 GLFW_KEY_ESCAPE,
       GlClearColor clear_grey clear_grey clear_grey 1, GlClear GL_COLOR_BUFFER_BIT,
       GlUseProgram 3, GlBindVertexArray 1, GlDrawArrays GL_TRIANGLES 0 6,
       GlfwSwapBuffers 1, GlfwPollEvents] @
      [GlfwWindowShouldClose 1,
       GlfwGetKey 1 GLFW_KEY_ESCAPE, GlfwSetWindowShouldClose 1 True,
       GlClearColor clear_grey clear_grey clear_grey 1, GlClear GL_COLOR_BUFFER_BIT,
       GlUseProgram 3, GlBindVertexArray 1, GlDrawArrays GL_TRIANGLES 0 6,
       GlfwSwapBuffers 1, GlfwPollEvents]"
    by (simp add: iteration_def processInput_def glfwGetKey_def glfwPollEvents_def
        glfwSetWindowShouldClose_def init_world_def env_escape_def env_ok_def)
  finally show ?thesis
    using a(1,2) by simp
qed

section \<open>The result of glfwInit\<close>

lemma startup_glfwInit_failed:
  "\<not> glfwInit_ok e \<Longrightarrow> startup e = startup (e\<lparr>glfwInit_ok := True, created_window := None\<rparr>)"
  by (simp add: startup_defs split: option.split)

text \<open>
  Claim C10. The value glfwInit returns is not looked at. When it fails, main still sets
  the window hints and calls glfwCreateWindow; the run is the run in which glfwInit
  succeeds and no window can be created: it prints that the window could not be created,
  calls glfwTerminate and returns -1.
\<close>

theorem glfwInit_result_unchecked:
  "\<not> glfwInit_ok e \<longrightarrow>
     main e fuel = main (e\<lparr>glfwInit_ok := True, created_window := None\<rparr>) fuel \<and>
     (\<exists>s. main e fuel = Some (- 1, s) \<and>
          calls s = context_calls e @ [GlfwTerminate] \<and>
          cout s = ''Failed to create GLFW window\<newline>'')"
proof
  assume a: "\<not> glfwInit_ok e"
  then have "\<not> window_created e"
    by (simp add: window_created_def)
  from startup_no_window[OF this] obtain s where
    s: "startup e = Inl (- 1, s)" "calls s = context_calls e @ [GlfwTerminate]"
      "cout s = ''Failed to create GLFW window\<newline>''"
    by blast
  from startup_glfwInit_failed[OF a]
  have "main e fuel = main (e\<lparr>glfwInit_ok := True, created_window := None\<rparr>) fuel"
    by (simp add: main_def)
  moreover from s have "main e fuel = Some (- 1, s)"
    by (simp add: main_def)
  ultimately show "main e fuel = main (e\<lparr>glfwInit_ok := True, created_window := None\<rparr>) fuel \<and>
     (\<exists>s. main e fuel = Some (- 1, s) \<and>
          calls s = context_calls e @ [GlfwTerminate] \<and>
          cout s = ''Failed to create GLFW window\<newline>'')"
    using s(2,3) by blast
qed

text \<open>The theorem at a run in which glfwInit fails.\<close>

theorem glfwInit_result_unchecked_witness:
  "main env_no_glfw 5 = main (env_ok\<lparr>created_window := None\<rparr>) 5 \<and>
   map_option fst (main env_no_glfw 5) = Some (- 1) \<and>
   map_option (calls \<circ> snd) (main env_no_glfw 5) =
     Some [GlfwInit,
           GlfwWindowHint GLFW_CONTEXT_VERSION_MAJOR (Hint_int 3),
           GlfwWindowHint GLFW_CONTEXT_VERSION_MINOR (Hint_int 3),
           GlfwWindowHint GLFW_OPENGL_PROFILE GLFW_OPENGL_CORE_PROFILE,
           GlfwCreateWindow 800 600 ''LearnOpenGL - First Triangle'',
           GlfwTerminate]"
proof -
  have a: "\<not> glfwInit_ok env_no_glfw"
    by (simp add: env_no_glfw_def)
  have b: "env_no_glfw\<lparr>glfwInit_ok := True, created_window := None\<rparr> =
      env_ok\<lparr>created_window := None\<rparr>"
    by (simp add: env_no_glfw_def env_ok_def)
  have c: "context_calls env_no_glfw =
      [GlfwInit,
       GlfwWindowHint GLFW_CONTEXT_VERSION_MAJOR (Hint_int 3),
       GlfwWindowHint GLFW_CONTEXT_VERSION_MINOR (Hint_int 3),
       GlfwWindowHint GLFW_OPENGL_PROFILE GLFW_OPENGL_CORE_PROFILE,
       GlfwCreateWindow 800 600 ''LearnOpenGL - First Triangle'']"
    by (simp add: context_calls_def env_no_glfw_def env_ok_def)
  from glfwInit_result_unchecked[of env_no_glfw 5] a obtain s where
    m: "main env_no_glfw 5 = main (env_no_glfw\<lparr>glfwInit_ok := True, created_window := None\<rparr>) 5"
    and r: "main env_no_glfw 5 = Some (- 1, s)"
    and k: "calls s = context_calls env_no_glfw @ [GlfwTerminate]"
    by blast
  from m have m': "main env_no_glfw 5 = main (env_ok\<lparr>created_window := None\<rparr>) 5"
    by (simp only: b)
  have f: "map_option fst (main env_no_glfw 5) = Some (- 1)"
    by (simp add: r)
  have g: "map_option (calls \<circ> snd) (main env_no_glfw 5) =
      Some (context_calls env_no_glfw @ [GlfwTerminate])"
    by (simp add: r k)
  from m' f g show ?thesis
    unfolding c by simp
qed


end
